theory Spec2Isabelle
  imports Main "HOL-Library.AList" "HOL-Library.Sublist"
begin

section \<open>The expo-updates configuration of a project (expoUpdates.ts)\<close>

text \<open>
  A shallow embedding of
  \<^verbatim>\<open>packages/expo-cli/src/commands/eas-build/utils/expoUpdates.ts\<close>.
  Every \<^verbatim>\<open>async\<close> function of the source is a function on a \<open>world\<close>: the
  content of the project directory together with a log of the calls made to the file system, the
  configuration loader and the version-control helpers. A thrown error is the \<open>Inl\<close> branch of
  the result. The spinner and the log output are left out.
\<close>

subsection \<open>Strings\<close>

definition dquote :: char where
  "dquote = CHR 0x22"

definition squote :: char where
  "squote = CHR 0x27"

definition backslash :: char where
  "backslash = CHR 0x5C"

definition newline :: char where
  "newline = CHR 0x0A"

text \<open>\<^verbatim>\<open>s.includes(sub)\<close>: \<open>sub\<close> occurs in \<open>s\<close> as a contiguous piece.\<close>

fun startsWith :: "string \<Rightarrow> string \<Rightarrow> bool" where
  "startsWith s [] = True"
| "startsWith [] (c # sub) = False"
| "startsWith (d # s) (c # sub) = (d = c \<and> startsWith s sub)"

fun includes_str :: "string \<Rightarrow> string \<Rightarrow> bool" where
  "includes_str [] sub = (sub = [])"
| "includes_str (d # s) sub = (startsWith (d # s) sub \<or> includes_str s sub)"

text \<open>\<^verbatim>\<open>s.split('\n')\<close>: the pieces between the newlines; never the empty list.\<close>

fun split_newline :: "string \<Rightarrow> string list" where
  "split_newline [] = [[]]"
| "split_newline (c # cs) =
     (if c = newline then [] # split_newline cs
      else (case split_newline cs of
              [] \<Rightarrow> [[c]]
            | line # lines \<Rightarrow> (c # line) # lines))"

text \<open>\<^verbatim>\<open>s.replace(/"$/, '')\<close>: a double quote at the very end of the string is dropped.\<close>

definition replace_trailing_dquote :: "string \<Rightarrow> string" where
  "replace_trailing_dquote s =
     (if s \<noteq> [] \<and> last s = dquote then butlast s else s)"

text \<open>\<^verbatim>\<open>s.replace(/"/g, "'")\<close>: every double quote becomes a single quote.\<close>

definition replace_dquotes :: "string \<Rightarrow> string" where
  "replace_dquotes s = map (\<lambda>c. if c = dquote then squote else c) s"

text \<open>\<^verbatim>\<open>s.replace(/\.xcodeproj$/, '')\<close>: the suffix \<^verbatim>\<open>.xcodeproj\<close> is dropped.\<close>

definition replace_xcodeproj_suffix :: "string \<Rightarrow> string" where
  "replace_xcodeproj_suffix s =
     (if suffix ''.xcodeproj'' s then take (length s - length ''.xcodeproj'') s else s)"

text \<open>JavaScript truthiness of a value that is a string, \<^verbatim>\<open>null\<close> or \<^verbatim>\<open>undefined\<close>.\<close>

definition truthy :: "string option \<Rightarrow> bool" where
  "truthy v = (case v of None \<Rightarrow> False | Some s \<Rightarrow> s \<noteq> [])"

definition iOSBuildScript :: string where
  "iOSBuildScript = ''../node_modules/expo-updates/scripts/create-manifest-ios.sh''"

definition androidBuildScript :: string where
  "androidBuildScript =
     ''apply from: '' @ [dquote]
       @ ''../../node_modules/expo-updates/scripts/create-manifest-android.gradle'' @ [dquote]"

subsection \<open>The data of a project\<close>

text \<open>The fields of \<^verbatim>\<open>ExpoConfig\<close> that the source and its helpers read.\<close>

record expo_config =
  runtimeVersion :: "string option"
  sdkVersion :: "string option"
  slug :: string

text \<open>
  An entry of the section \<^verbatim>\<open>project.hash.project.objects.PBXShellScriptBuildPhase\<close> of the
  Xcode project, with the two properties that the source reads; an entry may lack either (the
  comment entries of the section have neither). The project is seen as that section, which is
  \<open>None\<close> for a project without shell-script build phases.
\<close>

record build_phase =
  name :: "string option"
  shellScript :: "string option"

record xcode_project =
  PBXShellScriptBuildPhase :: "build_phase list option"

text \<open>
  A value of \<^verbatim>\<open>Expo.plist\<close>; \<open>PCompound\<close> stands for an array, a dictionary, a
  date or data (an object: always truthy, never equal to a string). Reals are left out.
\<close>

datatype plist_value = PString string | PBoolean bool | PInteger int | PCompound

type_synonym plist = "(string \<times> plist_value) list"

text \<open>
  The Android manifest as the manifest reader returns it. \<open>app_attrs\<close> and \<open>item_attrs\<close>
  are the \<^verbatim>\<open>$\<close> objects (the attributes) of an \<^verbatim>\<open>application\<close> node and of a
  \<^verbatim>\<open>meta-data\<close> node: \<open>None\<close> for an element written without attributes, which has no
  \<^verbatim>\<open>$\<close> property. \<open>meta_data\<close> is \<open>None\<close> when the node has no
  \<^verbatim>\<open>meta-data\<close> property. A manifest without any \<^verbatim>\<open>application\<close> element has
  the empty list here; the lookup below throws the same error for it.
\<close>

type_synonym attributes = "(string \<times> string) list"

datatype meta_data_item = MetaDataItem (item_attrs: "attributes option")

datatype manifest_application =
  Application (app_attrs: "attributes option") (meta_data: "meta_data_item list option")

record manifest_doc =
  application :: "manifest_application list"

text \<open>A file whose content the parser of its format accepts or rejects.\<close>

datatype 'a parsed = Malformed | Wellformed 'a

datatype path =
    PbxprojPath string
  | ExpoPlistPath string
  | SupportingDir string
  | BuildGradlePath
  | AndroidManifestPath

datatype error =
    MissingVersionError
  | XcodeProjectNotFound
  | XcodeParseError
  | BuildPhaseNotFound
  | PlistParseError
  | BuildScriptNotFound
  | ManifestNotFound
  | ManifestParseError
  | TypeError
  | DirtyGitTreeError
  | AbortError
  | CollaboratorError string

datatype event =
    GetPackageJson
  | GetCurrentUsername
  | GetConfig
  | Glob
  | PathExists path
  | ReadFile path
  | WriteFile path
  | Mkdirp path
  | GitAdd path
  | EnsureGitStatusIsClean
  | ReviewAndCommitChanges string bool

text \<open>
  The project directory. \<open>pbxprojFiles\<close> lists the matches of the glob
  \<^verbatim>\<open>ios/*/project.pbxproj\<close> in the glob's order, each with the directory name that
  \<^verbatim>\<open>*\<close> stands for; \<open>expoPlistFiles\<close> holds \<^verbatim>\<open>ios/<name>/Supporting/Expo.plist\<close>
  by \<open>name\<close>. A file is kept as the document that the library of its format reads from it and
  writes to it (\<^verbatim>\<open>xcode\<close>, \<^verbatim>\<open>@expo/plist\<close>, the manifest reader): writing a
  document and reading the file again gives the document back. Calls to the file system do not
  fail, except for reading a file that is not there.
\<close>

record world =
  dependencies :: "string list option"
  exp_config :: expo_config
  currentUsername :: "string option"
  pbxprojFiles :: "(string \<times> xcode_project parsed) list"
  expoPlistFiles :: "(string \<times> plist parsed) list"
  buildGradleFile :: "string option"
  androidManifestFile :: "manifest_doc parsed option"
  trace :: "event list"

type_synonym 'a io = "world \<Rightarrow> (error + 'a) \<times> world"

text \<open>
  What a callback handed to \<^verbatim>\<open>modifyExpoPlistAsync\<close> returns: the very object it was
  given (\<^verbatim>\<open>===\<close> holds) or another object.
\<close>

datatype 'a callback_result = SameObject | NewObject 'a

text \<open>
  The helpers of \<^verbatim>\<open>@expo/config\<close> that the source calls
  (\<^verbatim>\<open>AndroidConfig.Updates\<close>, \<^verbatim>\<open>IOSConfig.Updates\<close>): their code is not part
  of the file, so they are parameters of the model.
\<close>

record library =
  Android_RUNTIME_VERSION :: string
  Android_SDK_VERSION :: string
  Android_UPDATE_URL :: string
  Android_getRuntimeVersion :: "expo_config \<Rightarrow> string option"
  Android_getSDKVersion :: "expo_config \<Rightarrow> string option"
  Android_getUpdateUrl :: "expo_config \<Rightarrow> string option \<Rightarrow> string option"
  Android_setUpdatesConfig ::
    "expo_config \<Rightarrow> manifest_doc \<Rightarrow> string option \<Rightarrow> error + manifest_doc"
  Android_setVersionsConfig :: "expo_config \<Rightarrow> manifest_doc \<Rightarrow> error + manifest_doc"
  IOS_RUNTIME_VERSION :: string
  IOS_SDK_VERSION :: string
  IOS_UPDATE_URL :: string
  IOS_getRuntimeVersion :: "expo_config \<Rightarrow> string option"
  IOS_getSDKVersion :: "expo_config \<Rightarrow> string option"
  IOS_getUpdateUrl :: "expo_config \<Rightarrow> string option \<Rightarrow> string option"
  IOS_setUpdatesConfig ::
    "expo_config \<Rightarrow> plist \<Rightarrow> string option \<Rightarrow> error + plist callback_result"
  IOS_setVersionsConfig :: "expo_config \<Rightarrow> plist \<Rightarrow> error + plist callback_result"

text \<open>
  The version-control helpers (\<^verbatim>\<open>./git\<close>, \<^verbatim>\<open>../../../git\<close>), parameters as
  well: each reports the error it throws, if any, as a function of the state it runs in.
\<close>

record vcs =
  ensureGitStatusIsClean_outcome :: "world \<Rightarrow> error option"
  reviewAndCommitChanges_outcome :: "string \<Rightarrow> bool \<Rightarrow> world \<Rightarrow> error option"
  gitAdd_outcome :: "path \<Rightarrow> world \<Rightarrow> error option"

subsection \<open>Promises, errors and the calls to the outside\<close>

definition return_io :: "'a \<Rightarrow> 'a io" where
  "return_io x w = (Inr x, w)"

definition throw :: "error \<Rightarrow> 'a io" where
  "throw e w = (Inl e, w)"

text \<open>\<^verbatim>\<open>const x = await m; ...\<close>: an error of \<open>m\<close> ends the function.\<close>

definition await :: "'a io \<Rightarrow> ('a \<Rightarrow> 'b io) \<Rightarrow> 'b io" where
  "await m f w = (case m w of (Inl e, w') \<Rightarrow> (Inl e, w') | (Inr x, w') \<Rightarrow> f x w')"

text \<open>\<^verbatim>\<open>try { m } catch (err) { h(err) }\<close>.\<close>

definition try_catch :: "'a io \<Rightarrow> (error \<Rightarrow> 'a io) \<Rightarrow> 'a io" where
  "try_catch m h w = (case m w of (Inl err, w') \<Rightarrow> h err w' | (Inr x, w') \<Rightarrow> (Inr x, w'))"

definition logged :: "event \<Rightarrow> world \<Rightarrow> world" where
  "logged ev w = w\<lparr>trace := trace w @ [ev]\<rparr>"

definition outcome :: "error option \<Rightarrow> error + unit" where
  "outcome r = (case r of None \<Rightarrow> Inr () | Some e \<Rightarrow> Inl e)"

definition getPackageJson :: "string list option io" where
  "getPackageJson w = (Inr (dependencies w), logged GetPackageJson w)"

definition getCurrentUsernameAsync :: "string option io" where
  "getCurrentUsernameAsync w = (Inr (currentUsername w), logged GetCurrentUsername w)"

definition getConfig :: "expo_config io" where
  "getConfig w = (Inr (exp_config w), logged GetConfig w)"

definition glob_pbxproj :: "string list io" where
  "glob_pbxproj w = (Inr (map fst (pbxprojFiles w)), logged Glob w)"

text \<open>\<^verbatim>\<open>fs.pathExists\<close>, for the two paths it is called with.\<close>

definition pathExists_expoPlist :: "string \<Rightarrow> bool io" where
  "pathExists_expoPlist nm w =
     (Inr (map_of (expoPlistFiles w) nm \<noteq> None), logged (PathExists (ExpoPlistPath nm)) w)"

definition pathExists_buildGradle :: "bool io" where
  "pathExists_buildGradle w =
     (Inr (buildGradleFile w \<noteq> None), logged (PathExists BuildGradlePath) w)"

text \<open>\<^verbatim>\<open>xcode.project(pbxprojPath)\<close> and \<^verbatim>\<open>project.parse\<close>.\<close>

definition parse_pbxproj :: "string \<Rightarrow> xcode_project io" where
  "parse_pbxproj dir w =
     (case map_of (pbxprojFiles w) dir of
        Some (Wellformed project) \<Rightarrow> Inr project
      | _ \<Rightarrow> Inl XcodeParseError,
      logged (ReadFile (PbxprojPath dir)) w)"

text \<open>\<^verbatim>\<open>fs.writeFile(pbxprojPath, project.writeSync())\<close>.\<close>

definition writeFile_pbxproj :: "string \<Rightarrow> xcode_project \<Rightarrow> unit io" where
  "writeFile_pbxproj dir project w =
     (Inr (),
      logged (WriteFile (PbxprojPath dir))
        (w\<lparr>pbxprojFiles := AList.update dir (Wellformed project) (pbxprojFiles w)\<rparr>))"

text \<open>\<^verbatim>\<open>plist.parse(await fs.readFile(expoPlistPath, 'utf8'))\<close>.\<close>

definition readFile_plist :: "string \<Rightarrow> plist io" where
  "readFile_plist nm w =
     (case map_of (expoPlistFiles w) nm of
        Some (Wellformed expoPlist) \<Rightarrow> Inr expoPlist
      | Some Malformed \<Rightarrow> Inl PlistParseError
      | None \<Rightarrow> Inl (CollaboratorError ''ENOENT''),
      logged (ReadFile (ExpoPlistPath nm)) w)"

text \<open>\<^verbatim>\<open>fs.writeFile(expoPlistPath, plist.build(updatedExpoPlist))\<close>.\<close>

definition writeFile_plist :: "string \<Rightarrow> plist \<Rightarrow> unit io" where
  "writeFile_plist nm expoPlist w =
     (Inr (),
      logged (WriteFile (ExpoPlistPath nm))
        (w\<lparr>expoPlistFiles := AList.update nm (Wellformed expoPlist) (expoPlistFiles w)\<rparr>))"

definition mkdirp :: "path \<Rightarrow> unit io" where
  "mkdirp p w = (Inr (), logged (Mkdirp p) w)"

definition readFile_buildGradle :: "string io" where
  "readFile_buildGradle w =
     (case buildGradleFile w of
        Some content \<Rightarrow> Inr content
      | None \<Rightarrow> Inl (CollaboratorError ''ENOENT''),
      logged (ReadFile BuildGradlePath) w)"

definition writeFile_buildGradle :: "string \<Rightarrow> unit io" where
  "writeFile_buildGradle content w =
     (Inr (), logged (WriteFile BuildGradlePath) (w\<lparr>buildGradleFile := Some content\<rparr>))"

text \<open>
  \<^verbatim>\<open>AndroidConfig.Manifest.getProjectAndroidManifestPathAsync\<close>: the path of the manifest,
  or \<^verbatim>\<open>null\<close> when there is none. A project has one place for its manifest, so reading
  and writing at the path returned reads and writes that file.
\<close>

definition getProjectAndroidManifestPathAsync :: "path option io" where
  "getProjectAndroidManifestPathAsync w =
     (Inr (case androidManifestFile w of None \<Rightarrow> None | Some _ \<Rightarrow> Some AndroidManifestPath),
      logged (PathExists AndroidManifestPath) w)"

definition readAndroidManifestAsync :: "path \<Rightarrow> manifest_doc io" where
  "readAndroidManifestAsync androidManifestPath w =
     (case androidManifestFile w of
        Some (Wellformed doc) \<Rightarrow> Inr doc
      | Some Malformed \<Rightarrow> Inl ManifestParseError
      | None \<Rightarrow> Inl (CollaboratorError ''ENOENT''),
      logged (ReadFile androidManifestPath) w)"

definition writeAndroidManifestAsync :: "path \<Rightarrow> manifest_doc \<Rightarrow> unit io" where
  "writeAndroidManifestAsync androidManifestPath doc w =
     (Inr (),
      logged (WriteFile androidManifestPath) (w\<lparr>androidManifestFile := Some (Wellformed doc)\<rparr>))"

definition gitAddAsync :: "vcs \<Rightarrow> path \<Rightarrow> unit io" where
  "gitAddAsync G p w = (outcome (gitAdd_outcome G p w), logged (GitAdd p) w)"

definition ensureGitStatusIsCleanAsync :: "vcs \<Rightarrow> unit io" where
  "ensureGitStatusIsCleanAsync G w =
     (outcome (ensureGitStatusIsClean_outcome G w), logged EnsureGitStatusIsClean w)"

definition reviewAndCommitChangesAsync :: "vcs \<Rightarrow> string \<Rightarrow> bool \<Rightarrow> unit io" where
  "reviewAndCommitChangesAsync G message nonInteractive w =
     (outcome (reviewAndCommitChanges_outcome G message nonInteractive w),
      logged (ReviewAndCommitChanges message nonInteractive) w)"

text \<open>A function that does not wait (no \<^verbatim>\<open>async\<close>) but may throw.\<close>

definition and_then :: "error + 'a \<Rightarrow> ('a \<Rightarrow> error + 'b) \<Rightarrow> error + 'b" where
  "and_then r f = (case r of Inl e \<Rightarrow> Inl e | Inr x \<Rightarrow> f x)"

definition lift :: "error + 'a \<Rightarrow> 'a io" where
  "lift r w = (r, w)"

subsection \<open>Configuration\<close>

definition isExpoUpdatesInstalled :: "bool io" where
  "isExpoUpdatesInstalled =
     await getPackageJson (\<lambda>deps.
       return_io (case deps of None \<Rightarrow> False | Some ds \<Rightarrow> ''expo-updates'' \<in> set ds))"

definition getConfigurationOptionsAsync :: "(expo_config \<times> string option) io" where
  "getConfigurationOptionsAsync =
     await getCurrentUsernameAsync (\<lambda>username.
     await getConfig (\<lambda>exp.
       if \<not> truthy (runtimeVersion exp) \<and> \<not> truthy (sdkVersion exp)
       then throw MissingVersionError
       else return_io (exp, username)))"

subsection \<open>iOS\<close>

text \<open>A pbxproj path is given by the directory name that the glob's \<^verbatim>\<open>*\<close> matched.\<close>

definition getPbxprojPathAsync :: "string io" where
  "getPbxprojPathAsync =
     await glob_pbxproj (\<lambda>pbxprojPaths.
       case pbxprojPaths of
         [] \<Rightarrow> throw XcodeProjectNotFound
       | pbxprojPath # _ \<Rightarrow> return_io pbxprojPath)"

definition getXcodeProjectAsync :: "string \<Rightarrow> xcode_project io" where
  "getXcodeProjectAsync pbxprojPath = parse_pbxproj pbxprojPath"

text \<open>The name in \<^verbatim>\<open>ios/<name>/Supporting/Expo.plist\<close>.\<close>

definition getExpoPlistPath :: "string \<Rightarrow> string" where
  "getExpoPlistPath pbxprojPath = replace_xcodeproj_suffix pbxprojPath"

definition bundlePhaseName :: string where
  "bundlePhaseName = [dquote] @ ''Bundle React Native code and images'' @ [dquote]"

fun findIndex :: "('a \<Rightarrow> bool) \<Rightarrow> 'a list \<Rightarrow> nat option" where
  "findIndex P [] = None"
| "findIndex P (x # xs) = (if P x then Some 0 else map_option Suc (findIndex P xs))"

text \<open>
  The build phase found is an object inside the project; the model returns its position in the
  section, so that assigning to its \<^verbatim>\<open>shellScript\<close> changes the project.
\<close>

definition getBundleReactNativePhaseAsync :: "xcode_project \<Rightarrow> nat io" where
  "getBundleReactNativePhaseAsync project =
     (case PBXShellScriptBuildPhase project of
        None \<Rightarrow> throw TypeError
      | Some scriptBuildPhase \<Rightarrow>
          (case findIndex (\<lambda>buildPhase. name buildPhase = Some bundlePhaseName)
                  scriptBuildPhase of
             None \<Rightarrow> throw BuildPhaseNotFound
           | Some bundleReactNative \<Rightarrow> return_io bundleReactNative))"

text \<open>
  \<^verbatim>\<open>bundleReactNative.shellScript\<close> as the receiver of \<^verbatim>\<open>includes\<close>: the call throws
  a TypeError when the phase has no such property.
\<close>

definition shellScript_of :: "xcode_project \<Rightarrow> nat \<Rightarrow> error + string" where
  "shellScript_of project bundleReactNative =
     (case PBXShellScriptBuildPhase project of
        None \<Rightarrow> Inl TypeError
      | Some scriptBuildPhase \<Rightarrow>
          (case shellScript (scriptBuildPhase ! bundleReactNative) of
             None \<Rightarrow> Inl TypeError
           | Some script \<Rightarrow> Inr script))"

definition modifyExpoPlistAsync ::
    "vcs \<Rightarrow> (plist \<Rightarrow> error + plist callback_result) \<Rightarrow> unit io" where
  "modifyExpoPlistAsync G callback =
     await getPbxprojPathAsync (\<lambda>pbxprojPath.
     let expoPlistPath = getExpoPlistPath pbxprojPath in
     await (pathExists_expoPlist expoPlistPath) (\<lambda>exists.
     await (if exists then readFile_plist expoPlistPath else return_io []) (\<lambda>expoPlist.
     await (lift (callback expoPlist)) (\<lambda>updatedExpoPlist.
       case updatedExpoPlist of
         SameObject \<Rightarrow> return_io ()
       | NewObject updated \<Rightarrow>
           await (mkdirp (SupportingDir expoPlistPath)) (\<lambda>_.
           await (writeFile_plist expoPlistPath updated) (\<lambda>_.
           gitAddAsync G (ExpoPlistPath expoPlistPath)))))))"

text \<open>
  The \<^verbatim>\<open>if\<close> statement of \<^verbatim>\<open>configureUpdatesIOSAsync\<close>: the assignment to
  \<^verbatim>\<open>bundleReactNative.shellScript\<close>, as the change of the project that it is. The text
  appended ends with a backslash, the letter n and a double quote.
\<close>

definition appendBuildScript :: "xcode_project \<Rightarrow> nat \<Rightarrow> error + xcode_project" where
  "appendBuildScript project bundleReactNative =
     and_then (shellScript_of project bundleReactNative) (\<lambda>script.
       Inr (if \<not> includes_str script iOSBuildScript
            then project\<lparr>PBXShellScriptBuildPhase :=
                   map_option
                     (\<lambda>scriptBuildPhase.
                        scriptBuildPhase[bundleReactNative :=
                          (scriptBuildPhase ! bundleReactNative)
                            \<lparr>shellScript := Some (replace_trailing_dquote script @ iOSBuildScript
                                                   @ [backslash, CHR ''n'', dquote])\<rparr>])
                     (PBXShellScriptBuildPhase project)\<rparr>
            else project))"

definition configureUpdatesIOSAsync ::
    "library \<Rightarrow> vcs \<Rightarrow> expo_config \<Rightarrow> string option \<Rightarrow> unit io" where
  "configureUpdatesIOSAsync L G exp username =
     await getPbxprojPathAsync (\<lambda>pbxprojPath.
     await (getXcodeProjectAsync pbxprojPath) (\<lambda>project.
     await (getBundleReactNativePhaseAsync project) (\<lambda>bundleReactNative.
     await (lift (appendBuildScript project bundleReactNative)) (\<lambda>project'.
     await (writeFile_pbxproj pbxprojPath project') (\<lambda>_.
     modifyExpoPlistAsync G (\<lambda>expoPlist. IOS_setUpdatesConfig L exp expoPlist username))))))"

text \<open>
  \<^verbatim>\<open>expoPlist[key] === version\<close>, where \<open>version\<close> is a string or \<^verbatim>\<open>null\<close> and a
  missing key reads \<^verbatim>\<open>undefined\<close>.
\<close>

definition plist_strict_eq :: "plist_value option \<Rightarrow> string option \<Rightarrow> bool" where
  "plist_strict_eq v version =
     (case v of Some (PString s) \<Rightarrow> version = Some s | _ \<Rightarrow> False)"

definition truthy_value :: "plist_value option \<Rightarrow> bool" where
  "truthy_value v =
     (case v of
        None \<Rightarrow> False
      | Some (PString s) \<Rightarrow> s \<noteq> []
      | Some (PBoolean b) \<Rightarrow> b
      | Some (PInteger n) \<Rightarrow> n \<noteq> 0
      | Some PCompound \<Rightarrow> True)"

definition setVersionsIOSAsync :: "library \<Rightarrow> vcs \<Rightarrow> expo_config \<Rightarrow> unit io" where
  "setVersionsIOSAsync L G exp =
     modifyExpoPlistAsync G (\<lambda>expoPlist.
       let runtimeVersion = IOS_getRuntimeVersion L exp;
           sdkVersion = IOS_getSDKVersion L exp in
       if (truthy runtimeVersion
             \<and> plist_strict_eq (map_of expoPlist (IOS_RUNTIME_VERSION L)) runtimeVersion)
          \<or> (truthy sdkVersion
             \<and> plist_strict_eq (map_of expoPlist (IOS_SDK_VERSION L)) sdkVersion)
       then Inr SameObject
       else IOS_setVersionsConfig L exp expoPlist)"

definition isVersionsSetIOS :: "library \<Rightarrow> plist \<Rightarrow> bool" where
  "isVersionsSetIOS L expoPlistData =
     (truthy_value (map_of expoPlistData (IOS_RUNTIME_VERSION L))
      \<or> truthy_value (map_of expoPlistData (IOS_SDK_VERSION L)))"

definition isMetadataSetIOS ::
    "library \<Rightarrow> plist \<Rightarrow> expo_config \<Rightarrow> string option \<Rightarrow> bool" where
  "isMetadataSetIOS L expoPlistData exp username =
     (let currentUpdateUrl = IOS_getUpdateUrl L exp username in
      isVersionsSetIOS L expoPlistData
      \<and> truthy currentUpdateUrl
      \<and> plist_strict_eq (map_of expoPlistData (IOS_UPDATE_URL L)) currentUpdateUrl)"

definition isUpdatesConfiguredIOSAsync :: "library \<Rightarrow> bool io" where
  "isUpdatesConfiguredIOSAsync L =
     await isExpoUpdatesInstalled (\<lambda>installed.
     if \<not> installed then return_io True else
     await getConfigurationOptionsAsync (\<lambda>(exp, username).
     await getPbxprojPathAsync (\<lambda>pbxprojPath.
     await (getXcodeProjectAsync pbxprojPath) (\<lambda>project.
     await (getBundleReactNativePhaseAsync project) (\<lambda>bundleReactNative.
     await (lift (shellScript_of project bundleReactNative)) (\<lambda>script.
     if \<not> includes_str script iOSBuildScript then return_io False else
     let expoPlistPath = getExpoPlistPath pbxprojPath in
     await (pathExists_expoPlist expoPlistPath) (\<lambda>exists.
     if \<not> exists then return_io False else
     await (readFile_plist expoPlistPath) (\<lambda>expoPlistData.
     return_io (isMetadataSetIOS L expoPlistData exp username)))))))))"

subsection \<open>Android\<close>

definition getAndroidBuildGradleContentAsync :: "string io" where
  "getAndroidBuildGradleContentAsync =
     await pathExists_buildGradle (\<lambda>exists.
     if \<not> exists then throw BuildScriptNotFound else readFile_buildGradle)"

definition hasBuildScriptApply :: "string \<Rightarrow> bool" where
  "hasBuildScriptApply buildGradleContent =
     list_ex (\<lambda>line. line = androidBuildScript \<or> line = replace_dquotes androidBuildScript)
       (split_newline buildGradleContent)"

definition getAndroidManifestJSONAsync :: "(path \<times> manifest_doc) io" where
  "getAndroidManifestJSONAsync =
     await getProjectAndroidManifestPathAsync (\<lambda>androidManifestPath.
       case androidManifestPath of
         None \<Rightarrow> throw ManifestNotFound
       | Some p \<Rightarrow>
           await (readAndroidManifestAsync p) (\<lambda>androidManifestJSON.
             return_io (p, androidManifestJSON)))"

text \<open>
  \<^verbatim>\<open>application.filter(e => e['$']['android:name'] === '.MainApplication')\<close>: the callback
  runs on every node and throws a TypeError on a node without a \<^verbatim>\<open>$\<close> property.
\<close>

fun filter_MainApplication ::
    "manifest_application list \<Rightarrow> error + manifest_application list" where
  "filter_MainApplication [] = Inr []"
| "filter_MainApplication (e # es) =
     (case app_attrs e of
        None \<Rightarrow> Inl TypeError
      | Some attrs \<Rightarrow>
          and_then (filter_MainApplication es) (\<lambda>matches.
            Inr (if map_of attrs ''android:name'' = Some ''.MainApplication''
                 then e # matches else matches)))"

text \<open>
  \<^verbatim>\<open>items.find(e => e.$['android:name'] === name)\<close>: the callback runs on the items up to
  the first match and throws a TypeError on an item without a \<^verbatim>\<open>$\<close> property. The result
  is the \<^verbatim>\<open>$\<close> object of the item found.
\<close>

fun find_meta_data :: "string \<Rightarrow> meta_data_item list \<Rightarrow> error + attributes option" where
  "find_meta_data nm [] = Inr None"
| "find_meta_data nm (e # es) =
     (case item_attrs e of
        None \<Rightarrow> Inl TypeError
      | Some attrs \<Rightarrow>
          if map_of attrs ''android:name'' = Some nm then Inr (Some attrs)
          else find_meta_data nm es)"

text \<open>
  \<^verbatim>\<open>filter(...)[0]\<close> is \<^verbatim>\<open>undefined\<close> when nothing matches, and the call of
  \<^verbatim>\<open>hasOwnProperty\<close> on it throws a TypeError.
\<close>

definition getAndroidMetadataValue :: "manifest_doc \<Rightarrow> string \<Rightarrow> error + string option" where
  "getAndroidMetadataValue androidManifestJSON nm =
     and_then (filter_MainApplication (application androidManifestJSON)) (\<lambda>matches.
       case matches of
         [] \<Rightarrow> Inl TypeError
       | mainApplication # _ \<Rightarrow>
           (case meta_data mainApplication of
              Some items \<Rightarrow>
                and_then (find_meta_data nm items) (\<lambda>item.
                  case item of
                    None \<Rightarrow> Inr None
                  | Some attrs \<Rightarrow> Inr (map_of attrs ''android:value''))
            | None \<Rightarrow> Inr None))"

definition isVersionsSetAndroid :: "library \<Rightarrow> manifest_doc \<Rightarrow> error + bool" where
  "isVersionsSetAndroid L androidManifestJSON =
     and_then (getAndroidMetadataValue androidManifestJSON (Android_RUNTIME_VERSION L))
       (\<lambda>runtimeVersion.
     and_then (getAndroidMetadataValue androidManifestJSON (Android_SDK_VERSION L))
       (\<lambda>sdkVersion.
     Inr (truthy runtimeVersion \<or> truthy sdkVersion)))"

definition isMetadataSetAndroid ::
    "library \<Rightarrow> manifest_doc \<Rightarrow> expo_config \<Rightarrow> string option \<Rightarrow> error + bool" where
  "isMetadataSetAndroid L androidManifestJSON exp username =
     (let currentUpdateUrl = Android_getUpdateUrl L exp username in
      and_then (getAndroidMetadataValue androidManifestJSON (Android_UPDATE_URL L))
        (\<lambda>setUpdateUrl.
      and_then (isVersionsSetAndroid L androidManifestJSON) (\<lambda>versionsSet.
      Inr (versionsSet \<and> truthy currentUpdateUrl \<and> setUpdateUrl = currentUpdateUrl))))"

definition configureUpdatesAndroidAsync ::
    "library \<Rightarrow> expo_config \<Rightarrow> string option \<Rightarrow> unit io" where
  "configureUpdatesAndroidAsync L exp username =
     await getAndroidBuildGradleContentAsync (\<lambda>buildGradleContent.
     await (if \<not> hasBuildScriptApply buildGradleContent
            then writeFile_buildGradle
                   (buildGradleContent @ [newline] @ ''// Integration with Expo updates''
                      @ [newline] @ androidBuildScript @ [newline])
            else return_io ()) (\<lambda>_.
     await getAndroidManifestJSONAsync (\<lambda>(androidManifestPath, androidManifestJSON).
     await (lift (isMetadataSetAndroid L androidManifestJSON exp username)) (\<lambda>isSet.
     if \<not> isSet
     then await (lift (Android_setUpdatesConfig L exp androidManifestJSON username))
            (\<lambda>result. writeAndroidManifestAsync androidManifestPath result)
     else return_io ()))))"

definition setVersionsAndroidAsync :: "library \<Rightarrow> expo_config \<Rightarrow> unit io" where
  "setVersionsAndroidAsync L exp =
     await getAndroidManifestJSONAsync (\<lambda>(androidManifestPath, androidManifestJSON).
     let runtimeVersion = Android_getRuntimeVersion L exp;
         sdkVersion = Android_getSDKVersion L exp in
     await (lift (getAndroidMetadataValue androidManifestJSON (Android_RUNTIME_VERSION L)))
       (\<lambda>setRuntimeVersion.
     await (lift (getAndroidMetadataValue androidManifestJSON (Android_SDK_VERSION L)))
       (\<lambda>setSdkVersion.
     if (truthy runtimeVersion \<and> runtimeVersion = setRuntimeVersion)
        \<or> (truthy sdkVersion \<and> sdkVersion = setSdkVersion)
     then return_io ()
     else await (lift (Android_setVersionsConfig L exp androidManifestJSON))
            (\<lambda>result. writeAndroidManifestAsync androidManifestPath result))))"

definition isUpdatesConfiguredAndroidAsync :: "library \<Rightarrow> bool io" where
  "isUpdatesConfiguredAndroidAsync L =
     await isExpoUpdatesInstalled (\<lambda>installed.
     if \<not> installed then return_io True else
     await getConfigurationOptionsAsync (\<lambda>(exp, username).
     await getAndroidBuildGradleContentAsync (\<lambda>buildGradleContent.
     if \<not> hasBuildScriptApply buildGradleContent then return_io False else
     await getAndroidManifestJSONAsync (\<lambda>(androidManifestPath, androidManifestJSON).
     await (lift (isMetadataSetAndroid L androidManifestJSON exp username)) (\<lambda>isSet.
     if \<not> isSet then return_io False else return_io True)))))"

subsection \<open>The two entry points that change the project\<close>

text \<open>
  The \<^verbatim>\<open>catch\<close> block that both entry points have, and their \<^verbatim>\<open>try\<close> blocks.
\<close>

definition abortOrRethrow :: "vcs \<Rightarrow> string \<Rightarrow> bool \<Rightarrow> error \<Rightarrow> unit io" where
  "abortOrRethrow G message nonInteractive err =
     (if err = DirtyGitTreeError
      then try_catch (reviewAndCommitChangesAsync G message nonInteractive)
             (\<lambda>e. throw AbortError)
      else throw err)"

definition configureUpdates_try :: "library \<Rightarrow> vcs \<Rightarrow> unit io" where
  "configureUpdates_try L G =
     await getConfigurationOptionsAsync (\<lambda>(exp, username).
     await (configureUpdatesAndroidAsync L exp username) (\<lambda>_.
     await (configureUpdatesIOSAsync L G exp username) (\<lambda>_.
     ensureGitStatusIsCleanAsync G)))"

definition configureUpdatesAsync :: "library \<Rightarrow> vcs \<Rightarrow> bool \<Rightarrow> unit io" where
  "configureUpdatesAsync L G nonInteractive =
     await isExpoUpdatesInstalled (\<lambda>installed.
     if \<not> installed then return_io () else
     try_catch (configureUpdates_try L G)
       (abortOrRethrow G ''Configure expo-updates'' nonInteractive))"

definition setUpdateVersions_try :: "library \<Rightarrow> vcs \<Rightarrow> unit io" where
  "setUpdateVersions_try L G =
     await getConfigurationOptionsAsync (\<lambda>(exp, username).
     await (setVersionsAndroidAsync L exp) (\<lambda>_.
     await (setVersionsIOSAsync L G exp) (\<lambda>_.
     ensureGitStatusIsCleanAsync G)))"

definition setUpdateVersionsAsync :: "library \<Rightarrow> vcs \<Rightarrow> bool \<Rightarrow> unit io" where
  "setUpdateVersionsAsync L G nonInteractive =
     await isExpoUpdatesInstalled (\<lambda>installed.
     if \<not> installed then return_io () else
     try_catch (setUpdateVersions_try L G)
       (abortOrRethrow G ''Set runtime version for expo-updates'' nonInteractive))"

subsection \<open>What a run wrote\<close>

fun isWrite :: "event \<Rightarrow> bool" where
  "isWrite (WriteFile p) = True"
| "isWrite ev = False"

definition writes :: "world \<Rightarrow> event list" where
  "writes w = filter isWrite (trace w)"

text \<open>The files that the passes may change, as they are on disk.\<close>

definition onDisk ::
    "world \<Rightarrow> (string \<times> xcode_project parsed) list \<times> (string \<times> plist parsed) list
       \<times> string option \<times> manifest_doc parsed option" where
  "onDisk w = (pbxprojFiles w, expoPlistFiles w, buildGradleFile w, androidManifestFile w)"

subsection \<open>The helpers of the configuration package\<close>

text \<open>
  Modelled from the spec: \<^verbatim>\<open>AndroidConfig.Updates.setVersionsConfig\<close> and
  \<^verbatim>\<open>setUpdatesConfig\<close> of \<^verbatim>\<open>@expo/config\<close>, whose code is missing. The spec
  says that they "produce an updated manifest document with the update URL and/or version metadata
  entries inserted or replaced", the entries being "attached to one application node identified by
  a fixed name". \<open>putMetaData\<close> inserts or replaces one entry in a list of entries and fails
  (\<open>None\<close>) on an entry without attributes met before the one looked for.
\<close>

fun putMetaData ::
    "string \<Rightarrow> string \<Rightarrow> meta_data_item list \<Rightarrow> meta_data_item list option" where
  "putMetaData nm v [] =
     Some [MetaDataItem (Some [(''android:name'', nm), (''android:value'', v)])]"
| "putMetaData nm v (item # items) =
     (case item_attrs item of
        None \<Rightarrow> None
      | Some attrs \<Rightarrow>
          if map_of attrs ''android:name'' = Some nm
          then Some (MetaDataItem (Some (AList.update ''android:value'' v attrs)) # items)
          else map_option (\<lambda>items'. item # items') (putMetaData nm v items))"

text \<open>
  Modelled from the spec: the entry is put into the first application node with the fixed name
  (helper of \<^verbatim>\<open>@expo/config\<close>, code missing). The spec does not say what happens on
  nodes without attributes or without the application node; the helper is taken to find the node
  and the entry the way the lookup does and to fail (\<open>None\<close>) where the lookup throws.
\<close>

fun putMainApplication ::
    "string \<Rightarrow> string \<Rightarrow> manifest_application list \<Rightarrow> manifest_application list option" where
  "putMainApplication nm v [] = None"
| "putMainApplication nm v (e # es) =
     (case app_attrs e of
        None \<Rightarrow> None
      | Some attrs \<Rightarrow>
          if map_of attrs ''android:name'' = Some ''.MainApplication''
          then (if list_all (\<lambda>e'. app_attrs e' \<noteq> None) es
                then map_option (\<lambda>items. Application (Some attrs) (Some items) # es)
                       (putMetaData nm v
                          (case meta_data e of None \<Rightarrow> [] | Some items \<Rightarrow> items))
                else None)
          else map_option (\<lambda>es'. e # es') (putMainApplication nm v es))"

text \<open>Modelled from the spec: inserting or replacing one metadata entry of the manifest (helper of
  \<^verbatim>\<open>@expo/config\<close>, code missing); a value that is not declared changes nothing.\<close>

definition setAndroidMetadataValue ::
    "string \<Rightarrow> string option \<Rightarrow> manifest_doc \<Rightarrow> error + manifest_doc" where
  "setAndroidMetadataValue nm value doc =
     (case value of
        None \<Rightarrow> Inr doc
      | Some v \<Rightarrow>
          (case putMainApplication nm v (application doc) of
             None \<Rightarrow> Inl TypeError
           | Some apps \<Rightarrow> Inr (doc\<lparr>application := apps\<rparr>)))"

text \<open>Modelled from the spec: \<^verbatim>\<open>AndroidConfig.Updates.setVersionsConfig\<close> (code missing), the
  version entries inserted or replaced.\<close>

definition spec_Android_setVersionsConfig ::
    "expo_config \<Rightarrow> manifest_doc \<Rightarrow> error + manifest_doc" where
  "spec_Android_setVersionsConfig exp doc =
     and_then (setAndroidMetadataValue ''SDK_VERSION'' (sdkVersion exp) doc)
       (setAndroidMetadataValue ''RUNTIME_VERSION'' (runtimeVersion exp))"

text \<open>
  Modelled from the spec: the update URL that \<^verbatim>\<open>getUpdateUrl\<close> of
  \<^verbatim>\<open>@expo/config\<close> derives (code missing). The spec gives no formula, only that it comes
  from the declared configuration and the account, which may be absent, and the example
  \<^verbatim>\<open>https://u.example/@owner/slug\<close>.
\<close>

definition spec_getUpdateUrl :: "expo_config \<Rightarrow> string option \<Rightarrow> string option" where
  "spec_getUpdateUrl exp username =
     (case username of
        None \<Rightarrow> None
      | Some user \<Rightarrow> Some (''https://u.example/@'' @ user @ ''/'' @ slug exp))"

text \<open>Modelled from the spec: \<^verbatim>\<open>AndroidConfig.Updates.setUpdatesConfig\<close> (code missing), the
  update URL and the version entries inserted or replaced.\<close>

definition spec_Android_setUpdatesConfig ::
    "expo_config \<Rightarrow> manifest_doc \<Rightarrow> string option \<Rightarrow> error + manifest_doc" where
  "spec_Android_setUpdatesConfig exp doc username =
     and_then (setAndroidMetadataValue ''UPDATE_URL'' (spec_getUpdateUrl exp username) doc)
       (spec_Android_setVersionsConfig exp)"

text \<open>
  Modelled from the spec: inserting or replacing one key of the property list (helper of
  \<^verbatim>\<open>@expo/config\<close>, code missing). The property-list counterparts of the two functions
  above return a new map with the URL and version keys inserted or replaced.
\<close>

definition setPlistValue :: "string \<Rightarrow> string option \<Rightarrow> plist \<Rightarrow> plist" where
  "setPlistValue key value expoPlist =
     (case value of None \<Rightarrow> expoPlist | Some v \<Rightarrow> AList.update key (PString v) expoPlist)"

text \<open>Modelled from the spec: \<^verbatim>\<open>IOSConfig.Updates.setVersionsConfig\<close> (code missing).\<close>

definition spec_IOS_setVersionsConfig ::
    "expo_config \<Rightarrow> plist \<Rightarrow> error + plist callback_result" where
  "spec_IOS_setVersionsConfig exp expoPlist =
     Inr (NewObject (setPlistValue ''RUNTIME_VERSION'' (runtimeVersion exp)
                       (setPlistValue ''SDK_VERSION'' (sdkVersion exp) expoPlist)))"

text \<open>Modelled from the spec: \<^verbatim>\<open>IOSConfig.Updates.setUpdatesConfig\<close> (code missing).\<close>

definition spec_IOS_setUpdatesConfig ::
    "expo_config \<Rightarrow> plist \<Rightarrow> string option \<Rightarrow> error + plist callback_result" where
  "spec_IOS_setUpdatesConfig exp expoPlist username =
     spec_IOS_setVersionsConfig exp
       (setPlistValue ''UPDATE_URL'' (spec_getUpdateUrl exp username) expoPlist)"

text \<open>
  Modelled from the spec: the package \<^verbatim>\<open>@expo/config\<close> as a whole (code missing), with
  the keys under the names the spec uses and the declared versions read off the configuration.
\<close>

definition specLibrary :: library where
  "specLibrary =
     \<lparr> Android_RUNTIME_VERSION = ''RUNTIME_VERSION'',
       Android_SDK_VERSION = ''SDK_VERSION'',
       Android_UPDATE_URL = ''UPDATE_URL'',
       Android_getRuntimeVersion = runtimeVersion,
       Android_getSDKVersion = sdkVersion,
       Android_getUpdateUrl = spec_getUpdateUrl,
       Android_setUpdatesConfig = spec_Android_setUpdatesConfig,
       Android_setVersionsConfig = spec_Android_setVersionsConfig,
       IOS_RUNTIME_VERSION = ''RUNTIME_VERSION'',
       IOS_SDK_VERSION = ''SDK_VERSION'',
       IOS_UPDATE_URL = ''UPDATE_URL'',
       IOS_getRuntimeVersion = runtimeVersion,
       IOS_getSDKVersion = sdkVersion,
       IOS_getUpdateUrl = spec_getUpdateUrl,
       IOS_setUpdatesConfig = spec_IOS_setUpdatesConfig,
       IOS_setVersionsConfig = spec_IOS_setVersionsConfig \<rparr>"

subsection \<open>Example projects\<close>

definition exampleConfig :: expo_config where
  "exampleConfig = \<lparr> runtimeVersion = Some ''1.0.0'', sdkVersion = None, slug = ''slug'' \<rparr>"

definition templateScript :: string where
  "templateScript =
     [dquote] @ ''export NODE_BINARY=node'' @ [backslash, CHR ''n'']
       @ ''../node_modules/react-native/scripts/react-native-xcode.sh''
       @ [backslash, CHR ''n'', dquote]"

definition hookedScript :: string where
  "hookedScript =
     [dquote] @ ''export NODE_BINARY=node'' @ [backslash, CHR ''n'']
       @ ''../node_modules/react-native/scripts/react-native-xcode.sh''
       @ [backslash, CHR ''n''] @ iOSBuildScript @ [backslash, CHR ''n'', dquote]"

definition templateManifest :: manifest_doc where
  "templateManifest =
     \<lparr> application = [Application (Some [(''android:name'', ''.MainApplication'')]) None] \<rparr>"

definition configuredManifest :: manifest_doc where
  "configuredManifest =
     \<lparr> application =
         [Application (Some [(''android:name'', ''.MainApplication'')])
            (Some [MetaDataItem (Some [(''android:name'', ''UPDATE_URL''),
                                       (''android:value'', ''https://u.example/@owner/slug'')]),
                   MetaDataItem (Some [(''android:name'', ''RUNTIME_VERSION''),
                                       (''android:value'', ''1.0.0'')])])] \<rparr>"

text \<open>The build script of the configured project, and a manifest without the main application.\<close>

definition singleQuotedGradle :: string where
  "singleQuotedGradle =
     ''apply plugin: '' @ [squote] @ ''com.android.application'' @ [squote] @ [newline]
       @ replace_dquotes androidBuildScript @ [newline]"





text \<open>A project as the template creates it, with expo-updates installed and nothing configured.\<close>

definition templateProject :: world where
  "templateProject =
     \<lparr> dependencies = Some [''expo'', ''expo-updates''],
       exp_config = exampleConfig,
       currentUsername = Some ''owner'',
       pbxprojFiles =
         [(''app.xcodeproj'',
           Wellformed \<lparr> PBXShellScriptBuildPhase =
             Some [\<lparr> name = Some bundlePhaseName, shellScript = Some templateScript \<rparr>] \<rparr>)],
       expoPlistFiles = [],
       buildGradleFile = Some (''apply plugin: '' @ [squote] @ ''com.android.application'' @ [squote]),
       androidManifestFile = Some (Wellformed templateManifest),
       trace = [] \<rparr>"

text \<open>The same project with everything in place.\<close>

definition configuredProject :: world where
  "configuredProject =
     \<lparr> dependencies = Some [''expo'', ''expo-updates''],
       exp_config = exampleConfig,
       currentUsername = Some ''owner'',
       pbxprojFiles =
         [(''app.xcodeproj'',
           Wellformed \<lparr> PBXShellScriptBuildPhase =
             Some [\<lparr> name = Some bundlePhaseName, shellScript = Some hookedScript \<rparr>] \<rparr>)],
       expoPlistFiles =
         [(''app'',
           Wellformed [(''UPDATE_URL'', PString ''https://u.example/@owner/slug''),
                       (''RUNTIME_VERSION'', PString ''1.0.0'')])],
       buildGradleFile = Some singleQuotedGradle,
       androidManifestFile = Some (Wellformed configuredManifest),
       trace = [] \<rparr>"

text \<open>A repository that is clean, and one that has changes which the operator declines to commit.\<close>

definition cleanGit :: vcs where
  "cleanGit =
     \<lparr> ensureGitStatusIsClean_outcome = (\<lambda>w. None),
       reviewAndCommitChanges_outcome = (\<lambda>message nonInteractive w. None),
       gitAdd_outcome = (\<lambda>p w. None) \<rparr>"

definition dirtyGit :: vcs where
  "dirtyGit =
     \<lparr> ensureGitStatusIsClean_outcome =
         (\<lambda>w. if writes w = [] then None else Some DirtyGitTreeError),
       reviewAndCommitChanges_outcome =
         (\<lambda>message nonInteractive w. Some (CollaboratorError ''declined'')),
       gitAdd_outcome = (\<lambda>p w. None) \<rparr>"


text \<open>The template project without the expo-updates dependency.\<close>

definition noUpdatesProject :: world where
  "noUpdatesProject = templateProject\<lparr> dependencies := Some [''expo''] \<rparr>"

text \<open>The template project with no runtime version and an empty SDK version declared.\<close>

definition unversionedProject :: world where
  "unversionedProject =
     templateProject\<lparr> exp_config :=
       \<lparr> runtimeVersion = None, sdkVersion = Some [], slug = ''slug'' \<rparr> \<rparr>"

subsection \<open>The lines of a file, as the spec speaks of them\<close>

text \<open>
  \<open>isLineOf line s\<close>: \<open>line\<close> is a line of the text \<open>s\<close>, that is a piece without a
  newline that starts at the beginning of the text or after a newline and ends at the end of the
  text or before a newline. \<open>join_newline\<close> puts lines together again.
\<close>

definition isLineOf :: "string \<Rightarrow> string \<Rightarrow> bool" where
  "isLineOf line s \<longleftrightarrow>
     newline \<notin> set line
     \<and> (\<exists>before after. s = before @ line @ after
           \<and> (before = [] \<or> last before = newline)
           \<and> (after = [] \<or> hd after = newline))"

fun join_newline :: "string list \<Rightarrow> string" where
  "join_newline [] = []"
| "join_newline [line] = line"
| "join_newline (line # lines) = line @ newline # join_newline lines"

section \<open>Properties\<close>

subsection \<open>The dependency check and the resolution of the configuration\<close>

lemma isExpoUpdatesInstalled_eq:
  "isExpoUpdatesInstalled w =
     (Inr (\<exists>ds. dependencies w = Some ds \<and> ''expo-updates'' \<in> set ds), logged GetPackageJson w)"
  by (simp add: isExpoUpdatesInstalled_def getPackageJson_def await_def return_io_def
        split: option.splits)

lemma getConfigurationOptionsAsync_eq:
  "getConfigurationOptionsAsync w =
     (if \<not> truthy (runtimeVersion (exp_config w)) \<and> \<not> truthy (sdkVersion (exp_config w))
      then Inl MissingVersionError else Inr (exp_config w, currentUsername w),
      logged GetConfig (logged GetCurrentUsername w))"
  by (simp add: getConfigurationOptionsAsync_def getCurrentUsernameAsync_def getConfig_def
        await_def return_io_def throw_def logged_def)

text \<open>
  Claim C7. When the dependencies of the project do not list \<^verbatim>\<open>expo-updates\<close>, each of the
  four public entry points returns at once: the only call made is the one that reads the
  dependency manifest, so the configuration is not read and no file is read or written.
\<close>

theorem skip_without_expo_updates:
  assumes "\<forall>ds. dependencies w = Some ds \<longrightarrow> ''expo-updates'' \<notin> set ds"
  shows "configureUpdatesAsync L G nonInteractive w = (Inr (), logged GetPackageJson w)
       \<and> setUpdateVersionsAsync L G nonInteractive w = (Inr (), logged GetPackageJson w)
       \<and> isUpdatesConfiguredIOSAsync L w = (Inr True, logged GetPackageJson w)
       \<and> isUpdatesConfiguredAndroidAsync L w = (Inr True, logged GetPackageJson w)"
  using assms
  by (simp add: configureUpdatesAsync_def setUpdateVersionsAsync_def
        isUpdatesConfiguredIOSAsync_def isUpdatesConfiguredAndroidAsync_def
        isExpoUpdatesInstalled_eq await_def return_io_def)

theorem skip_without_expo_updates_witness:
  "dependencies noUpdatesProject = Some [''expo'']
   \<and> configureUpdatesAsync specLibrary dirtyGit False noUpdatesProject
       = (Inr (), logged GetPackageJson noUpdatesProject)
   \<and> setUpdateVersionsAsync specLibrary dirtyGit False noUpdatesProject
       = (Inr (), logged GetPackageJson noUpdatesProject)
   \<and> isUpdatesConfiguredIOSAsync specLibrary noUpdatesProject
       = (Inr True, logged GetPackageJson noUpdatesProject)
   \<and> isUpdatesConfiguredAndroidAsync specLibrary noUpdatesProject
       = (Inr True, logged GetPackageJson noUpdatesProject)"
proof -
  have deps: "dependencies noUpdatesProject = Some [''expo'']"
    by (simp add: noUpdatesProject_def)
  then have "\<forall>ds. dependencies noUpdatesProject = Some ds \<longrightarrow> ''expo-updates'' \<notin> set ds"
    by simp
  from skip_without_expo_updates [OF this, of specLibrary dirtyGit False] deps
  show ?thesis by simp
qed

text \<open>
  Claim C10. When the dependencies of the project do not list \<^verbatim>\<open>expo-updates\<close>, both
  predicates answer \<^verbatim>\<open>true\<close>: the project is reported as configured, neither
  \<^verbatim>\<open>false\<close> nor an error.
\<close>

theorem predicates_true_without_expo_updates:
  assumes "\<forall>ds. dependencies w = Some ds \<longrightarrow> ''expo-updates'' \<notin> set ds"
  shows "fst (isUpdatesConfiguredIOSAsync L w) = Inr True
       \<and> fst (isUpdatesConfiguredAndroidAsync L w) = Inr True"
  using assms
  by (simp add: isUpdatesConfiguredIOSAsync_def isUpdatesConfiguredAndroidAsync_def
        isExpoUpdatesInstalled_eq await_def return_io_def)

theorem predicates_true_without_expo_updates_witness:
  "dependencies noUpdatesProject = Some [''expo'']
   \<and> fst (isUpdatesConfiguredIOSAsync specLibrary noUpdatesProject) = Inr True
   \<and> fst (isUpdatesConfiguredAndroidAsync specLibrary noUpdatesProject) = Inr True"
proof -
  have deps: "dependencies noUpdatesProject = Some [''expo'']"
    by (simp add: noUpdatesProject_def)
  then have "\<forall>ds. dependencies noUpdatesProject = Some ds \<longrightarrow> ''expo-updates'' \<notin> set ds"
    by simp
  from predicates_true_without_expo_updates [OF this, of specLibrary] deps
  show ?thesis by simp
qed

text \<open>
  Claim C6. When neither \<^verbatim>\<open>runtimeVersion\<close> nor \<^verbatim>\<open>sdkVersion\<close> of the declared
  configuration is set (absent or empty), \<^verbatim>\<open>getConfigurationOptionsAsync\<close> throws the
  missing-version error after the account lookup and the reading of the configuration alone. In
  a project with expo-updates installed each entry point then ends with that error, having read
  the dependency manifest, the account and the configuration and nothing else: no project file
  is read or written.
\<close>

theorem missing_version_touches_no_file:
  assumes "\<not> truthy (runtimeVersion (exp_config w))" and "\<not> truthy (sdkVersion (exp_config w))"
  shows "getConfigurationOptionsAsync w
           = (Inl MissingVersionError, logged GetConfig (logged GetCurrentUsername w))
       \<and> (\<forall>ds. dependencies w = Some ds \<and> ''expo-updates'' \<in> set ds \<longrightarrow>
            (let w' = logged GetConfig (logged GetCurrentUsername (logged GetPackageJson w)) in
             configureUpdatesAsync L G nonInteractive w = (Inl MissingVersionError, w')
           \<and> setUpdateVersionsAsync L G nonInteractive w = (Inl MissingVersionError, w')
           \<and> isUpdatesConfiguredIOSAsync L w = (Inl MissingVersionError, w')
           \<and> isUpdatesConfiguredAndroidAsync L w = (Inl MissingVersionError, w')))"
  using assms
  by (simp add: configureUpdatesAsync_def setUpdateVersionsAsync_def
        configureUpdates_try_def setUpdateVersions_try_def abortOrRethrow_def
        isUpdatesConfiguredIOSAsync_def isUpdatesConfiguredAndroidAsync_def
        isExpoUpdatesInstalled_eq getConfigurationOptionsAsync_eq await_def return_io_def
        try_catch_def throw_def logged_def)

theorem missing_version_touches_no_file_witness:
  "\<not> truthy (runtimeVersion (exp_config unversionedProject))
   \<and> \<not> truthy (sdkVersion (exp_config unversionedProject))
   \<and> dependencies unversionedProject = Some [''expo'', ''expo-updates'']
   \<and> getConfigurationOptionsAsync unversionedProject
       = (Inl MissingVersionError, logged GetConfig (logged GetCurrentUsername unversionedProject))
   \<and> configureUpdatesAsync specLibrary dirtyGit False unversionedProject
       = (Inl MissingVersionError,
          logged GetConfig (logged GetCurrentUsername (logged GetPackageJson unversionedProject)))
   \<and> onDisk (snd (configureUpdatesAsync specLibrary dirtyGit False unversionedProject))
       = onDisk unversionedProject"
proof -
  have rv: "\<not> truthy (runtimeVersion (exp_config unversionedProject))"
    and sv: "\<not> truthy (sdkVersion (exp_config unversionedProject))"
    and deps: "dependencies unversionedProject = Some [''expo'', ''expo-updates'']"
    by (simp_all add: unversionedProject_def templateProject_def truthy_def)
  from missing_version_touches_no_file [OF rv sv, of specLibrary dirtyGit False] rv sv deps
  show ?thesis by (simp add: Let_def onDisk_def logged_def)
qed

subsection \<open>The build script\<close>

lemma split_newline_not_Nil [simp]: "split_newline s \<noteq> []"
  by (induction s) (auto split: list.splits)

lemma split_newline_no_newline: "line \<in> set (split_newline s) \<Longrightarrow> newline \<notin> set line"
  by (induction s arbitrary: line) (auto split: list.splits if_splits)

lemma join_newline_Cons:
  "lines \<noteq> [] \<Longrightarrow> join_newline (line # lines) = line @ newline # join_newline lines"
  by (cases lines) auto

lemma join_newline_append:
  "lines \<noteq> [] \<Longrightarrow> rest \<noteq> [] \<Longrightarrow>
   join_newline (lines @ rest) = join_newline lines @ newline # join_newline rest"
  by (induction lines rule: join_newline.induct) (auto simp: join_newline_Cons)

lemma join_split_newline: "join_newline (split_newline s) = s"
proof (induction s)
  case Nil
  show ?case by simp
next
  case (Cons c cs)
  obtain line lines where sp: "split_newline cs = line # lines"
    by (cases "split_newline cs") auto
  show ?case
  proof (cases "c = newline")
    case True
    then show ?thesis using Cons by (simp add: join_newline_Cons)
  next
    case False
    then show ?thesis using Cons sp by (cases lines) auto
  qed
qed

lemma split_newline_single: "newline \<notin> set s \<Longrightarrow> split_newline s = [s]"
  by (induction s) auto

lemma split_newline_append:
  "split_newline (xs @ newline # ys) = split_newline xs @ split_newline ys"
proof (induction xs)
  case Nil
  show ?case by simp
next
  case (Cons x xs)
  obtain line lines where sp: "split_newline xs = line # lines"
    by (cases "split_newline xs") auto
  show ?case using Cons sp by simp
qed

lemma isLineOf_imp_split:
  assumes "isLineOf line s"
  shows "line \<in> set (split_newline s)"
proof -
  from assms obtain before after where
    nl: "newline \<notin> set line" and s: "s = before @ line @ after"
    and b: "before = [] \<or> last before = newline"
    and a: "after = [] \<or> hd after = newline"
    by (auto simp: isLineOf_def)
  have right: "line \<in> set (split_newline (line @ after))"
  proof (cases after)
    case Nil
    then show ?thesis using nl by (simp add: split_newline_single)
  next
    case (Cons c after')
    with a have "line @ after = line @ newline # after'" by simp
    then show ?thesis using nl by (simp add: split_newline_append split_newline_single)
  qed
  show ?thesis
  proof (cases "before = []")
    case True
    then show ?thesis using right s by simp
  next
    case False
    with b have "before = butlast before @ [newline]"
      by (metis append_butlast_last_id)
    then have "s = butlast before @ newline # (line @ after)"
      using s by (metis append.assoc append_Cons append_Nil)
    then show ?thesis using right by (simp add: split_newline_append)
  qed
qed

lemma split_imp_isLineOf:
  assumes "line \<in> set (split_newline s)"
  shows "isLineOf line s"
proof -
  from assms obtain pre post where sp: "split_newline s = pre @ line # post"
    by (auto simp: in_set_conv_decomp)
  have nl: "newline \<notin> set line" using assms by (rule split_newline_no_newline)
  define before where "before = (if pre = [] then [] else join_newline pre @ [newline])"
  define after where "after = (if post = [] then [] else newline # join_newline post)"
  have "join_newline (line # post) = line @ after"
    by (cases post) (auto simp: after_def)
  then have "join_newline (pre @ line # post) = before @ line @ after"
    by (cases "pre = []") (auto simp: before_def join_newline_append)
  then have "s = before @ line @ after"
    using sp join_split_newline [of s] by simp
  moreover have "before = [] \<or> last before = newline" by (simp add: before_def)
  moreover have "after = [] \<or> hd after = newline" by (simp add: after_def)
  ultimately show ?thesis using nl unfolding isLineOf_def by blast
qed

lemma set_split_newline: "line \<in> set (split_newline s) \<longleftrightarrow> isLineOf line s"
  using isLineOf_imp_split split_imp_isLineOf by blast

lemma hasBuildScriptApply_iff:
  "hasBuildScriptApply content \<longleftrightarrow>
     isLineOf androidBuildScript content \<or> isLineOf (replace_dquotes androidBuildScript) content"
  by (auto simp: hasBuildScriptApply_def list_ex_iff set_split_newline)

lemma androidBuildScript_no_newline: "newline \<notin> set androidBuildScript"
  by (simp add: androidBuildScript_def newline_def dquote_def)

lemma hasBuildScriptApply_appended:
  "hasBuildScriptApply (content @ [newline] @ comment @ [newline] @ androidBuildScript @ [newline])"
proof -
  have "isLineOf androidBuildScript
          ((content @ [newline] @ comment @ [newline]) @ androidBuildScript @ [newline])"
    unfolding isLineOf_def using androidBuildScript_no_newline
    by (intro conjI exI [of _ "content @ [newline] @ comment @ [newline]"] exI [of _ "[newline]"])
       simp_all
  then show ?thesis by (simp add: hasBuildScriptApply_iff)
qed

lemma getAndroidBuildGradleContentAsync_eq:
  "getAndroidBuildGradleContentAsync w =
     (case buildGradleFile w of
        None \<Rightarrow> (Inl BuildScriptNotFound, logged (PathExists BuildGradlePath) w)
      | Some content \<Rightarrow>
          (Inr content, logged (ReadFile BuildGradlePath) (logged (PathExists BuildGradlePath) w)))"
  by (simp add: getAndroidBuildGradleContentAsync_def pathExists_expoPlist_def pathExists_buildGradle_def readFile_buildGradle_def
        await_def throw_def logged_def split: option.splits)

lemma getAndroidManifestJSONAsync_eq:
  "getAndroidManifestJSONAsync w =
     (case androidManifestFile w of
        None \<Rightarrow> (Inl ManifestNotFound, logged (PathExists AndroidManifestPath) w)
      | Some Malformed \<Rightarrow>
          (Inl ManifestParseError,
           logged (ReadFile AndroidManifestPath) (logged (PathExists AndroidManifestPath) w))
      | Some (Wellformed doc) \<Rightarrow>
          (Inr (AndroidManifestPath, doc),
           logged (ReadFile AndroidManifestPath) (logged (PathExists AndroidManifestPath) w)))"
  by (simp add: getAndroidManifestJSONAsync_def getProjectAndroidManifestPathAsync_def
        readAndroidManifestAsync_def await_def throw_def return_io_def logged_def
        split: option.splits parsed.splits)

lemma configureUpdatesAndroidAsync_eq:
  "configureUpdatesAndroidAsync L exp username w =
     (case buildGradleFile w of
        None \<Rightarrow> (Inl BuildScriptNotFound, logged (PathExists BuildGradlePath) w)
      | Some content \<Rightarrow>
          (let w0 = logged (ReadFile BuildGradlePath) (logged (PathExists BuildGradlePath) w);
               w1 = (if hasBuildScriptApply content then w0
                     else logged (WriteFile BuildGradlePath)
                            (w0\<lparr>buildGradleFile :=
                                  Some (content @ [newline] @ ''// Integration with Expo updates''
                                          @ [newline] @ androidBuildScript @ [newline])\<rparr>))
           in
           case androidManifestFile w of
             None \<Rightarrow> (Inl ManifestNotFound, logged (PathExists AndroidManifestPath) w1)
           | Some Malformed \<Rightarrow>
               (Inl ManifestParseError,
                logged (ReadFile AndroidManifestPath) (logged (PathExists AndroidManifestPath) w1))
           | Some (Wellformed doc) \<Rightarrow>
               (let w2 = logged (ReadFile AndroidManifestPath)
                           (logged (PathExists AndroidManifestPath) w1) in
                case isMetadataSetAndroid L doc exp username of
                  Inl e \<Rightarrow> (Inl e, w2)
                | Inr True \<Rightarrow> (Inr (), w2)
                | Inr False \<Rightarrow>
                    (case Android_setUpdatesConfig L exp doc username of
                       Inl e \<Rightarrow> (Inl e, w2)
                     | Inr result \<Rightarrow>
                         (Inr (), logged (WriteFile AndroidManifestPath)
                                    (w2\<lparr>androidManifestFile := Some (Wellformed result)\<rparr>))))))"
  by (simp add: configureUpdatesAndroidAsync_def getAndroidBuildGradleContentAsync_eq
        getAndroidManifestJSONAsync_eq writeFile_buildGradle_def
        writeAndroidManifestAsync_def await_def lift_def return_io_def logged_def Let_def
        split: option.splits parsed.splits sum.splits bool.splits)

lemma single_quoted_directive:
  "replace_dquotes androidBuildScript =
     ''apply from: '' @ [squote]
       @ ''../../node_modules/expo-updates/scripts/create-manifest-android.gradle'' @ [squote]"
  by (simp add: replace_dquotes_def androidBuildScript_def dquote_def squote_def)

text \<open>
  Claim C5. The check of the build script holds exactly when some line of the file is the
  apply-from directive, written with double quotes or with single quotes. The Android pass leaves
  a build script that passes the check as it is and does not write it (so a script with the
  single-quote form is not modified); otherwise it writes the script once, with a newline, the
  one-line comment, a newline, the double-quoted directive and a final newline appended.
\<close>

theorem build_script_apply_directive:
  "(hasBuildScriptApply content \<longleftrightarrow>
      isLineOf androidBuildScript content \<or> isLineOf (replace_dquotes androidBuildScript) content)
   \<and> replace_dquotes androidBuildScript =
       ''apply from: '' @ [squote]
         @ ''../../node_modules/expo-updates/scripts/create-manifest-android.gradle'' @ [squote]
   \<and> (buildGradleFile w = Some content \<longrightarrow>
        (let w' = snd (configureUpdatesAndroidAsync L exp username w) in
         buildGradleFile w' =
           Some (if hasBuildScriptApply content then content
                 else content @ [newline] @ ''// Integration with Expo updates'' @ [newline]
                        @ androidBuildScript @ [newline])
         \<and> filter (\<lambda>ev. ev = WriteFile BuildGradlePath) (trace w') =
             filter (\<lambda>ev. ev = WriteFile BuildGradlePath) (trace w)
               @ (if hasBuildScriptApply content then [] else [WriteFile BuildGradlePath])))"
proof (intro conjI impI)
  show "hasBuildScriptApply content \<longleftrightarrow>
      isLineOf androidBuildScript content \<or> isLineOf (replace_dquotes androidBuildScript) content"
    by (rule hasBuildScriptApply_iff)
  show "replace_dquotes androidBuildScript =
       ''apply from: '' @ [squote]
         @ ''../../node_modules/expo-updates/scripts/create-manifest-android.gradle'' @ [squote]"
    by (rule single_quoted_directive)
  assume "buildGradleFile w = Some content"
  then show "let w' = snd (configureUpdatesAndroidAsync L exp username w) in
         buildGradleFile w' =
           Some (if hasBuildScriptApply content then content
                 else content @ [newline] @ ''// Integration with Expo updates'' @ [newline]
                        @ androidBuildScript @ [newline])
         \<and> filter (\<lambda>ev. ev = WriteFile BuildGradlePath) (trace w') =
             filter (\<lambda>ev. ev = WriteFile BuildGradlePath) (trace w)
               @ (if hasBuildScriptApply content then [] else [WriteFile BuildGradlePath])"
    by (simp add: configureUpdatesAndroidAsync_eq Let_def logged_def
          split: option.splits parsed.splits sum.splits bool.splits)
qed

theorem build_script_apply_directive_witness:
  "buildGradleFile configuredProject = Some singleQuotedGradle
   \<and> isLineOf (replace_dquotes androidBuildScript) singleQuotedGradle
   \<and> hasBuildScriptApply singleQuotedGradle
   \<and> buildGradleFile (snd (configureUpdatesAndroidAsync specLibrary exampleConfig (Some ''owner'')
        configuredProject)) = Some singleQuotedGradle
   \<and> filter (\<lambda>ev. ev = WriteFile BuildGradlePath)
        (trace (snd (configureUpdatesAndroidAsync specLibrary exampleConfig (Some ''owner'')
           configuredProject))) = []"
proof -
  have gradle: "buildGradleFile configuredProject = Some singleQuotedGradle"
    by (simp add: configuredProject_def singleQuotedGradle_def)
  have line: "isLineOf (replace_dquotes androidBuildScript) singleQuotedGradle"
    unfolding isLineOf_def singleQuotedGradle_def
    by (intro conjI exI [of _ "''apply plugin: '' @ [squote] @ ''com.android.application''
          @ [squote] @ [newline]"] exI [of _ "[newline]"])
       (simp_all add: single_quoted_directive squote_def newline_def)
  have tr: "trace configuredProject = []"
    by (simp add: configuredProject_def)
  from build_script_apply_directive
         [of singleQuotedGradle configuredProject specLibrary exampleConfig "Some ''owner''"]
       gradle line tr
  show ?thesis by (simp add: Let_def)
qed

subsection \<open>The metadata of the Android manifest\<close>

lemma filter_MainApplication_Inl:
  "filter_MainApplication apps = Inl e \<Longrightarrow> e = TypeError"
proof (induction apps)
  case Nil
  then show ?case by simp
next
  case (Cons a apps)
  then show ?case
    by (cases "app_attrs a"; cases "filter_MainApplication apps")
       (simp_all add: and_then_def)
qed

lemma filter_MainApplication_eq:
  "filter_MainApplication apps =
     (if list_all (\<lambda>e. app_attrs e \<noteq> None) apps
      then Inr (filter (\<lambda>e. \<exists>attrs. app_attrs e = Some attrs
                           \<and> map_of attrs ''android:name'' = Some ''.MainApplication'') apps)
      else Inl TypeError)"
proof (induction apps)
  case Nil
  show ?case by simp
next
  case (Cons a apps)
  show ?case
  proof (cases "app_attrs a")
    case None
    then show ?thesis by simp
  next
    case (Some attrs)
    show ?thesis
    proof (cases "filter_MainApplication apps")
      case (Inl e)
      with Cons Some filter_MainApplication_Inl [OF Inl] show ?thesis
        by (simp add: and_then_def split: if_splits)
    next
      case (Inr matches)
      with Cons Some show ?thesis
        by (simp add: and_then_def split: if_splits)
    qed
  qed
qed




subsection \<open>The recovery from a working tree with changes\<close>

lemma abortOrRethrow_dirty:
  "abortOrRethrow G message nonInteractive DirtyGitTreeError w =
     (case reviewAndCommitChanges_outcome G message nonInteractive w of
        None \<Rightarrow> Inr () | Some e \<Rightarrow> Inl AbortError,
      logged (ReviewAndCommitChanges message nonInteractive) w)"
  by (simp add: abortOrRethrow_def try_catch_def reviewAndCommitChangesAsync_def outcome_def
        throw_def split: option.splits)

lemma abortOrRethrow_other:
  "err \<noteq> DirtyGitTreeError \<Longrightarrow> abortOrRethrow G message nonInteractive err w = (Inl err, w)"
  by (simp add: abortOrRethrow_def throw_def)

lemma configureUpdates_try_dirty:
  assumes "getConfigurationOptionsAsync w = (Inr (exp, username), w1)"
    and "configureUpdatesAndroidAsync L exp username w1 = (Inr (), w2)"
    and "configureUpdatesIOSAsync L G exp username w2 = (Inr (), w3)"
    and "ensureGitStatusIsClean_outcome G w3 = Some err"
  shows "configureUpdates_try L G w = (Inl err, logged EnsureGitStatusIsClean w3)"
  using assms
  by (simp add: configureUpdates_try_def await_def ensureGitStatusIsCleanAsync_def outcome_def)

lemma setUpdateVersions_try_dirty:
  assumes "getConfigurationOptionsAsync w = (Inr (exp, username), w1)"
    and "setVersionsAndroidAsync L exp w1 = (Inr (), w2)"
    and "setVersionsIOSAsync L G exp w2 = (Inr (), w3)"
    and "ensureGitStatusIsClean_outcome G w3 = Some err"
  shows "setUpdateVersions_try L G w = (Inl err, logged EnsureGitStatusIsClean w3)"
  using assms
  by (simp add: setUpdateVersions_try_def await_def ensureGitStatusIsCleanAsync_def outcome_def)

lemma configureUpdatesAsync_installed:
  assumes "dependencies w = Some ds" and "''expo-updates'' \<in> set ds"
  shows "configureUpdatesAsync L G nonInteractive w =
           (case configureUpdates_try L G (logged GetPackageJson w) of
              (Inl err, w') \<Rightarrow> abortOrRethrow G ''Configure expo-updates'' nonInteractive err w'
            | (Inr u, w') \<Rightarrow> (Inr u, w'))"
  using assms
  by (simp add: configureUpdatesAsync_def isExpoUpdatesInstalled_eq await_def try_catch_def)

lemma setUpdateVersionsAsync_installed:
  assumes "dependencies w = Some ds" and "''expo-updates'' \<in> set ds"
  shows "setUpdateVersionsAsync L G nonInteractive w =
           (case setUpdateVersions_try L G (logged GetPackageJson w) of
              (Inl err, w') \<Rightarrow>
                abortOrRethrow G ''Set runtime version for expo-updates'' nonInteractive err w'
            | (Inr u, w') \<Rightarrow> (Inr u, w'))"
  using assms
  by (simp add: setUpdateVersionsAsync_def isExpoUpdatesInstalled_eq await_def try_catch_def)

lemma pair_fstI: "fst p = a \<Longrightarrow> p = (a, snd p)"
  by auto

text \<open>
  Claim C9. In a project with expo-updates installed: when the passes of an entry point have
  all completed and the check of the working tree then throws the dirty-tree error, the entry
  point runs the review-and-commit step on the state the passes left; it ends normally when that
  step succeeds and throws the abort error when that step throws anything. An error of the
  \<^verbatim>\<open>try\<close> block other than the dirty-tree error leaves the entry point unchanged, with
  the state as it was when the error was thrown.
\<close>

theorem dirty_tree_recovery:
  assumes "dependencies w = Some ds" and "''expo-updates'' \<in> set ds"
  shows
    "(\<forall>exp username w1 w2 w3.
        getConfigurationOptionsAsync (logged GetPackageJson w) = (Inr (exp, username), w1)
        \<and> configureUpdatesAndroidAsync L exp username w1 = (Inr (), w2)
        \<and> configureUpdatesIOSAsync L G exp username w2 = (Inr (), w3)
        \<and> ensureGitStatusIsClean_outcome G w3 = Some DirtyGitTreeError
        \<longrightarrow> configureUpdatesAsync L G nonInteractive w =
              (case reviewAndCommitChanges_outcome G ''Configure expo-updates'' nonInteractive
                      (logged EnsureGitStatusIsClean w3) of
                 None \<Rightarrow> Inr () | Some e \<Rightarrow> Inl AbortError,
               logged (ReviewAndCommitChanges ''Configure expo-updates'' nonInteractive)
                 (logged EnsureGitStatusIsClean w3)))
   \<and> (\<forall>exp username w1 w2 w3.
        getConfigurationOptionsAsync (logged GetPackageJson w) = (Inr (exp, username), w1)
        \<and> setVersionsAndroidAsync L exp w1 = (Inr (), w2)
        \<and> setVersionsIOSAsync L G exp w2 = (Inr (), w3)
        \<and> ensureGitStatusIsClean_outcome G w3 = Some DirtyGitTreeError
        \<longrightarrow> setUpdateVersionsAsync L G nonInteractive w =
              (case reviewAndCommitChanges_outcome G ''Set runtime version for expo-updates''
                      nonInteractive (logged EnsureGitStatusIsClean w3) of
                 None \<Rightarrow> Inr () | Some e \<Rightarrow> Inl AbortError,
               logged (ReviewAndCommitChanges ''Set runtime version for expo-updates''
                         nonInteractive)
                 (logged EnsureGitStatusIsClean w3)))
   \<and> (\<forall>err w'. configureUpdates_try L G (logged GetPackageJson w) = (Inl err, w')
        \<and> err \<noteq> DirtyGitTreeError
        \<longrightarrow> configureUpdatesAsync L G nonInteractive w = (Inl err, w'))
   \<and> (\<forall>err w'. setUpdateVersions_try L G (logged GetPackageJson w) = (Inl err, w')
        \<and> err \<noteq> DirtyGitTreeError
        \<longrightarrow> setUpdateVersionsAsync L G nonInteractive w = (Inl err, w'))"
proof (intro conjI allI impI)
  fix exp username w1 w2 w3
  assume "getConfigurationOptionsAsync (logged GetPackageJson w) = (Inr (exp, username), w1)
        \<and> configureUpdatesAndroidAsync L exp username w1 = (Inr (), w2)
        \<and> configureUpdatesIOSAsync L G exp username w2 = (Inr (), w3)
        \<and> ensureGitStatusIsClean_outcome G w3 = Some DirtyGitTreeError"
  then have "configureUpdates_try L G (logged GetPackageJson w)
               = (Inl DirtyGitTreeError, logged EnsureGitStatusIsClean w3)"
    by (auto intro: configureUpdates_try_dirty)
  then show "configureUpdatesAsync L G nonInteractive w =
              (case reviewAndCommitChanges_outcome G ''Configure expo-updates'' nonInteractive
                      (logged EnsureGitStatusIsClean w3) of
                 None \<Rightarrow> Inr () | Some e \<Rightarrow> Inl AbortError,
               logged (ReviewAndCommitChanges ''Configure expo-updates'' nonInteractive)
                 (logged EnsureGitStatusIsClean w3))"
    by (simp add: configureUpdatesAsync_installed [OF assms] abortOrRethrow_dirty)
next
  fix exp username w1 w2 w3
  assume "getConfigurationOptionsAsync (logged GetPackageJson w) = (Inr (exp, username), w1)
        \<and> setVersionsAndroidAsync L exp w1 = (Inr (), w2)
        \<and> setVersionsIOSAsync L G exp w2 = (Inr (), w3)
        \<and> ensureGitStatusIsClean_outcome G w3 = Some DirtyGitTreeError"
  then have "setUpdateVersions_try L G (logged GetPackageJson w)
               = (Inl DirtyGitTreeError, logged EnsureGitStatusIsClean w3)"
    by (auto intro: setUpdateVersions_try_dirty)
  then show "setUpdateVersionsAsync L G nonInteractive w =
              (case reviewAndCommitChanges_outcome G ''Set runtime version for expo-updates''
                      nonInteractive (logged EnsureGitStatusIsClean w3) of
                 None \<Rightarrow> Inr () | Some e \<Rightarrow> Inl AbortError,
               logged (ReviewAndCommitChanges ''Set runtime version for expo-updates''
                         nonInteractive)
                 (logged EnsureGitStatusIsClean w3))"
    by (simp add: setUpdateVersionsAsync_installed [OF assms] abortOrRethrow_dirty)
next
  fix err w'
  assume "configureUpdates_try L G (logged GetPackageJson w) = (Inl err, w')
        \<and> err \<noteq> DirtyGitTreeError"
  then show "configureUpdatesAsync L G nonInteractive w = (Inl err, w')"
    by (simp add: configureUpdatesAsync_installed [OF assms] abortOrRethrow_other)
next
  fix err w'
  assume "setUpdateVersions_try L G (logged GetPackageJson w) = (Inl err, w')
        \<and> err \<noteq> DirtyGitTreeError"
  then show "setUpdateVersionsAsync L G nonInteractive w = (Inl err, w')"
    by (simp add: setUpdateVersionsAsync_installed [OF assms] abortOrRethrow_other)
qed

theorem dirty_tree_recovery_witness:
  "dependencies templateProject = Some [''expo'', ''expo-updates'']
   \<and> fst (getConfigurationOptionsAsync (logged GetPackageJson templateProject))
       = Inr (exampleConfig, Some ''owner'')
   \<and> configureUpdatesAsync specLibrary dirtyGit False templateProject
       = (Inl AbortError,
          logged (ReviewAndCommitChanges ''Configure expo-updates'' False)
            (logged EnsureGitStatusIsClean
              (snd (configureUpdatesIOSAsync specLibrary dirtyGit exampleConfig (Some ''owner'')
                (snd (configureUpdatesAndroidAsync specLibrary exampleConfig (Some ''owner'')
                  (snd (getConfigurationOptionsAsync (logged GetPackageJson templateProject)))))))))
   \<and> fst (setUpdateVersionsAsync specLibrary dirtyGit False templateProject) = Inl AbortError
   \<and> fst (configureUpdatesAsync specLibrary dirtyGit False unversionedProject)
       = Inl MissingVersionError
   \<and> fst (setUpdateVersionsAsync specLibrary dirtyGit False unversionedProject)
       = Inl MissingVersionError"
proof -
  let ?w0 = "logged GetPackageJson templateProject"
  let ?w1 = "snd (getConfigurationOptionsAsync ?w0)"
  let ?a2 = "snd (configureUpdatesAndroidAsync specLibrary exampleConfig (Some ''owner'') ?w1)"
  let ?a3 = "snd (configureUpdatesIOSAsync specLibrary dirtyGit exampleConfig (Some ''owner'') ?a2)"
  let ?v2 = "snd (setVersionsAndroidAsync specLibrary exampleConfig ?w1)"
  let ?v3 = "snd (setVersionsIOSAsync specLibrary dirtyGit exampleConfig ?v2)"
  have deps: "dependencies templateProject = Some [''expo'', ''expo-updates'']"
    and mem: "''expo-updates'' \<in> set [''expo'', ''expo-updates'']"
    by (simp_all add: templateProject_def)
  have deps': "dependencies unversionedProject = Some [''expo'', ''expo-updates'']"
    by (simp add: unversionedProject_def templateProject_def)
  have c: "fst (getConfigurationOptionsAsync ?w0) = Inr (exampleConfig, Some ''owner'')"
    by code_simp
  have a2: "fst (configureUpdatesAndroidAsync specLibrary exampleConfig (Some ''owner'') ?w1)
              = Inr ()"
    by code_simp
  have a3: "fst (configureUpdatesIOSAsync specLibrary dirtyGit exampleConfig (Some ''owner'') ?a2)
              = Inr ()"
    by code_simp
  have a4: "ensureGitStatusIsClean_outcome dirtyGit ?a3 = Some DirtyGitTreeError"
    by code_simp
  have v2: "fst (setVersionsAndroidAsync specLibrary exampleConfig ?w1) = Inr ()"
    by code_simp
  have v3: "fst (setVersionsIOSAsync specLibrary dirtyGit exampleConfig ?v2) = Inr ()"
    by code_simp
  have v4: "ensureGitStatusIsClean_outcome dirtyGit ?v3 = Some DirtyGitTreeError"
    by code_simp
  have m1: "configureUpdates_try specLibrary dirtyGit (logged GetPackageJson unversionedProject)
              = (Inl MissingVersionError,
                 snd (configureUpdates_try specLibrary dirtyGit
                        (logged GetPackageJson unversionedProject)))"
    by (rule pair_fstI) code_simp
  have m2: "setUpdateVersions_try specLibrary dirtyGit (logged GetPackageJson unversionedProject)
              = (Inl MissingVersionError,
                 snd (setUpdateVersions_try specLibrary dirtyGit
                        (logged GetPackageJson unversionedProject)))"
    by (rule pair_fstI) code_simp
  note T = dirty_tree_recovery [OF deps mem, of specLibrary dirtyGit False]
  note U = dirty_tree_recovery [OF deps' mem, of specLibrary dirtyGit False]
  have r1: "configureUpdatesAsync specLibrary dirtyGit False templateProject
       = (Inl AbortError,
          logged (ReviewAndCommitChanges ''Configure expo-updates'' False)
            (logged EnsureGitStatusIsClean ?a3))"
    using T [THEN conjunct1, rule_format,
             OF conjI [OF pair_fstI [OF c] conjI [OF pair_fstI [OF a2] conjI [OF pair_fstI [OF a3] a4]]]]
    by (simp add: dirtyGit_def)
  have r2: "fst (setUpdateVersionsAsync specLibrary dirtyGit False templateProject) = Inl AbortError"
    using T [THEN conjunct2, THEN conjunct1, rule_format,
             OF conjI [OF pair_fstI [OF c] conjI [OF pair_fstI [OF v2] conjI [OF pair_fstI [OF v3] v4]]]]
    by (simp add: dirtyGit_def)
  have r3: "fst (configureUpdatesAsync specLibrary dirtyGit False unversionedProject)
       = Inl MissingVersionError"
    using U [THEN conjunct2, THEN conjunct2, THEN conjunct1, rule_format, OF conjI [OF m1]]
    by simp
  have r4: "fst (setUpdateVersionsAsync specLibrary dirtyGit False unversionedProject)
       = Inl MissingVersionError"
    using U [THEN conjunct2, THEN conjunct2, THEN conjunct2, rule_format, OF conjI [OF m2]]
    by simp
  from deps c r1 r2 r3 r4 show ?thesis by simp
qed

subsection \<open>The versions in the Android manifest\<close>


lemma find_meta_data_Inl: "find_meta_data nm items = Inl e \<Longrightarrow> e = TypeError"
  by (induction items) (auto split: option.splits if_splits)


lemma getAndroidMetadataValue_Cons_other:
  assumes "app_attrs e = Some attrs"
    and "map_of attrs ''android:name'' \<noteq> Some ''.MainApplication''"
  shows "getAndroidMetadataValue (doc\<lparr>application := e # es\<rparr>) nm
           = getAndroidMetadataValue (doc\<lparr>application := es\<rparr>) nm"
  using assms
  by (cases "filter_MainApplication es") (simp_all add: getAndroidMetadataValue_def and_then_def)

lemma getAndroidMetadataValue_Cons_main:
  assumes "app_attrs e = Some attrs"
    and "map_of attrs ''android:name'' = Some ''.MainApplication''"
  shows "getAndroidMetadataValue (doc\<lparr>application := e # es\<rparr>) nm =
           (if list_all (\<lambda>e'. app_attrs e' \<noteq> None) es
            then (case meta_data e of
                    None \<Rightarrow> Inr None
                  | Some items \<Rightarrow>
                      (case find_meta_data nm items of
                         Inl err \<Rightarrow> Inl err
                       | Inr None \<Rightarrow> Inr None
                       | Inr (Some attrs') \<Rightarrow> Inr (map_of attrs' ''android:value'')))
            else Inl TypeError)"
  using assms
  by (simp add: getAndroidMetadataValue_def filter_MainApplication_eq and_then_def
        split: option.splits sum.splits)

lemma getAndroidMetadataValue_Cons_bare:
  assumes "app_attrs e = None"
  shows "getAndroidMetadataValue (doc\<lparr>application := e # es\<rparr>) nm = Inl TypeError"
  using assms by (simp add: getAndroidMetadataValue_def and_then_def)






subsection \<open>The iOS pass\<close>

lemma getPbxprojPathAsync_eq:
  "getPbxprojPathAsync w =
     (case pbxprojFiles w of
        [] \<Rightarrow> Inl XcodeProjectNotFound
      | (pbxprojPath, f) # _ \<Rightarrow> Inr pbxprojPath,
      logged Glob w)"
  by (simp add: getPbxprojPathAsync_def glob_pbxproj_def await_def throw_def return_io_def
        split: list.splits prod.splits)

lemma modifyExpoPlistAsync_eq:
  "modifyExpoPlistAsync G callback w =
     (case pbxprojFiles w of
        [] \<Rightarrow> (Inl XcodeProjectNotFound, logged Glob w)
      | (pbxprojPath, f) # _ \<Rightarrow>
          (let nm = getExpoPlistPath pbxprojPath;
               w1 = logged (PathExists (ExpoPlistPath nm)) (logged Glob w);
               w2 = logged (ReadFile (ExpoPlistPath nm)) w1;
               modify = (\<lambda>expoPlist w'.
                 case callback expoPlist of
                   Inl e \<Rightarrow> (Inl e, w')
                 | Inr SameObject \<Rightarrow> (Inr (), w')
                 | Inr (NewObject updated) \<Rightarrow>
                     (let w3 = logged (WriteFile (ExpoPlistPath nm))
                                 ((logged (Mkdirp (SupportingDir nm)) w')
                                    \<lparr>expoPlistFiles :=
                                       AList.update nm (Wellformed updated) (expoPlistFiles w)\<rparr>)
                      in (outcome (gitAdd_outcome G (ExpoPlistPath nm) w3),
                          logged (GitAdd (ExpoPlistPath nm)) w3)))
           in case map_of (expoPlistFiles w) nm of
                None \<Rightarrow> modify [] w1
              | Some Malformed \<Rightarrow> (Inl PlistParseError, w2)
              | Some (Wellformed expoPlist) \<Rightarrow> modify expoPlist w2))"
  by (simp add: modifyExpoPlistAsync_def getPbxprojPathAsync_eq pathExists_expoPlist_def pathExists_buildGradle_def readFile_plist_def
        mkdirp_def writeFile_plist_def gitAddAsync_def await_def lift_def return_io_def
        logged_def Let_def
        split: list.splits prod.splits option.splits parsed.splits sum.splits
               callback_result.splits)

lemma configureUpdatesIOSAsync_eq:
  "configureUpdatesIOSAsync L G exp username w =
     (case pbxprojFiles w of
        [] \<Rightarrow> (Inl XcodeProjectNotFound, logged Glob w)
      | (pbxprojPath, Malformed) # _ \<Rightarrow>
          (Inl XcodeParseError, logged (ReadFile (PbxprojPath pbxprojPath)) (logged Glob w))
      | (pbxprojPath, Wellformed project) # others \<Rightarrow>
          (let w1 = logged (ReadFile (PbxprojPath pbxprojPath)) (logged Glob w) in
           case PBXShellScriptBuildPhase project of
             None \<Rightarrow> (Inl TypeError, w1)
           | Some scriptBuildPhase \<Rightarrow>
               (case findIndex (\<lambda>buildPhase. name buildPhase = Some bundlePhaseName)
                       scriptBuildPhase of
                  None \<Rightarrow> (Inl BuildPhaseNotFound, w1)
                | Some bundleReactNative \<Rightarrow>
                    (case appendBuildScript project bundleReactNative of
                       Inl e \<Rightarrow> (Inl e, w1)
                     | Inr project' \<Rightarrow>
                         modifyExpoPlistAsync G
                           (\<lambda>expoPlist. IOS_setUpdatesConfig L exp expoPlist username)
                           (logged (WriteFile (PbxprojPath pbxprojPath))
                              (w1\<lparr>pbxprojFiles :=
                                    (pbxprojPath, Wellformed project') # others\<rparr>))))))"
  by (simp add: configureUpdatesIOSAsync_def getPbxprojPathAsync_eq getXcodeProjectAsync_def
        parse_pbxproj_def getBundleReactNativePhaseAsync_def writeFile_pbxproj_def
        await_def lift_def throw_def return_io_def logged_def Let_def
        split: list.splits prod.splits option.splits parsed.splits sum.splits)

lemma modifyExpoPlistAsync_trace:
  "\<exists>evs. trace (snd (modifyExpoPlistAsync G callback w)) = trace w @ evs"
  by (simp add: modifyExpoPlistAsync_eq logged_def Let_def
        split: list.splits prod.splits option.splits parsed.splits sum.splits
               callback_result.splits)

lemma modifyExpoPlistAsync_pbxprojFiles:
  "pbxprojFiles (snd (modifyExpoPlistAsync G callback w)) = pbxprojFiles w"
  by (simp add: modifyExpoPlistAsync_eq logged_def Let_def
        split: list.splits prod.splits option.splits parsed.splits sum.splits
               callback_result.splits)

lemma configureUpdatesIOSAsync_writes_pbxproj:
  assumes "pbxprojFiles w = (pbxprojPath, Wellformed project) # others"
    and "PBXShellScriptBuildPhase project = Some scriptBuildPhase"
    and "findIndex (\<lambda>buildPhase. name buildPhase = Some bundlePhaseName) scriptBuildPhase
           = Some bundleReactNative"
    and "appendBuildScript project bundleReactNative = Inr project'"
  shows "WriteFile (PbxprojPath pbxprojPath)
           \<in> set (trace (snd (configureUpdatesIOSAsync L G exp username w)))"
proof -
  let ?w1 = "logged (WriteFile (PbxprojPath pbxprojPath))
               ((logged (ReadFile (PbxprojPath pbxprojPath)) (logged Glob w))
                  \<lparr>pbxprojFiles := (pbxprojPath, Wellformed project') # others\<rparr>)"
  obtain evs where
    "trace (snd (modifyExpoPlistAsync G
        (\<lambda>expoPlist. IOS_setUpdatesConfig L exp expoPlist username) ?w1)) = trace ?w1 @ evs"
    using modifyExpoPlistAsync_trace by blast
  then show ?thesis using assms
    by (simp add: configureUpdatesIOSAsync_eq logged_def)
qed

text \<open>
  Claim C2 says that the iOS pass leaves \<^verbatim>\<open>project.pbxproj\<close> unwritten when the script of the
  bundle phase already contains the hook. The call of \<^verbatim>\<open>fs.writeFile\<close> stands after the
  \<^verbatim>\<open>if\<close> statement, not inside it: in the configured example project the hook is present
  and the pass, with any helpers and any configuration, still writes the file.
\<close>

theorem pbxproj_written_with_hook_present:
  "pbxprojFiles configuredProject =
     [(''app.xcodeproj'',
       Wellformed \<lparr> PBXShellScriptBuildPhase =
         Some [\<lparr> name = Some bundlePhaseName, shellScript = Some hookedScript \<rparr>] \<rparr>)]
   \<and> includes_str hookedScript iOSBuildScript
   \<and> WriteFile (PbxprojPath ''app.xcodeproj'')
       \<in> set (trace (snd (configureUpdatesIOSAsync L G exp username configuredProject)))"
proof -
  let ?project = "\<lparr> PBXShellScriptBuildPhase =
         Some [\<lparr> name = Some bundlePhaseName, shellScript = Some hookedScript \<rparr>] \<rparr>"
  have files: "pbxprojFiles configuredProject = [(''app.xcodeproj'', Wellformed ?project)]"
    by (simp add: configuredProject_def)
  have hook: "includes_str hookedScript iOSBuildScript"
    by code_simp
  have sect: "PBXShellScriptBuildPhase ?project
                   = Some [\<lparr> name = Some bundlePhaseName, shellScript = Some hookedScript \<rparr>]"
    by simp
  have found: "findIndex (\<lambda>buildPhase. name buildPhase = Some bundlePhaseName)
                 [\<lparr> name = Some bundlePhaseName, shellScript = Some hookedScript \<rparr>] = Some 0"
    by simp
  have same: "appendBuildScript ?project 0 = Inr ?project"
    using hook by (simp add: appendBuildScript_def shellScript_of_def and_then_def)
  from configureUpdatesIOSAsync_writes_pbxproj [OF files sect found same] files hook
  show ?thesis by simp
qed

subsection \<open>The predicates and the passes\<close>

lemma isUpdatesConfiguredAndroidAsync_eq:
  assumes "dependencies w = Some ds" and "''expo-updates'' \<in> set ds"
    and "truthy (runtimeVersion (exp_config w)) \<or> truthy (sdkVersion (exp_config w))"
  shows "isUpdatesConfiguredAndroidAsync L w =
     (let w0 = logged GetConfig (logged GetCurrentUsername (logged GetPackageJson w)) in
      case buildGradleFile w of
        None \<Rightarrow> (Inl BuildScriptNotFound, logged (PathExists BuildGradlePath) w0)
      | Some content \<Rightarrow>
          (let w1 = logged (ReadFile BuildGradlePath) (logged (PathExists BuildGradlePath) w0) in
           if \<not> hasBuildScriptApply content then (Inr False, w1)
           else case androidManifestFile w of
                  None \<Rightarrow> (Inl ManifestNotFound, logged (PathExists AndroidManifestPath) w1)
                | Some Malformed \<Rightarrow>
                    (Inl ManifestParseError,
                     logged (ReadFile AndroidManifestPath)
                       (logged (PathExists AndroidManifestPath) w1))
                | Some (Wellformed doc) \<Rightarrow>
                    (isMetadataSetAndroid L doc (exp_config w) (currentUsername w),
                     logged (ReadFile AndroidManifestPath)
                       (logged (PathExists AndroidManifestPath) w1))))"
  using assms
  by (auto simp: isUpdatesConfiguredAndroidAsync_def isExpoUpdatesInstalled_eq
        getConfigurationOptionsAsync_eq getAndroidBuildGradleContentAsync_eq
        getAndroidManifestJSONAsync_eq await_def lift_def return_io_def logged_def Let_def
        split: option.splits parsed.splits sum.splits)

lemma isUpdatesConfiguredAndroidAsync_frame:
  assumes "dependencies w = Some ds" and "''expo-updates'' \<in> set ds"
    and "truthy (runtimeVersion (exp_config w)) \<or> truthy (sdkVersion (exp_config w))"
  shows "buildGradleFile (snd (isUpdatesConfiguredAndroidAsync L w)) = buildGradleFile w
       \<and> androidManifestFile (snd (isUpdatesConfiguredAndroidAsync L w)) = androidManifestFile w"
  by (simp add: isUpdatesConfiguredAndroidAsync_eq [OF assms] logged_def Let_def
        split: option.splits parsed.splits)

lemma isUpdatesConfiguredAndroidAsync_true_iff:
  assumes "dependencies w = Some ds" and "''expo-updates'' \<in> set ds"
    and "truthy (runtimeVersion (exp_config w)) \<or> truthy (sdkVersion (exp_config w))"
  shows "fst (isUpdatesConfiguredAndroidAsync L w) = Inr True \<longleftrightarrow>
           (\<exists>content doc. buildGradleFile w = Some content \<and> hasBuildScriptApply content
              \<and> androidManifestFile w = Some (Wellformed doc)
              \<and> isMetadataSetAndroid L doc (exp_config w) (currentUsername w) = Inr True)"
  by (simp add: isUpdatesConfiguredAndroidAsync_eq [OF assms] Let_def
        split: option.splits parsed.splits)

lemma configureUpdatesAndroidAsync_no_write_iff:
  "fst (configureUpdatesAndroidAsync L exp username w) = Inr ()
     \<and> writes (snd (configureUpdatesAndroidAsync L exp username w)) = writes w \<longleftrightarrow>
   (\<exists>content doc. buildGradleFile w = Some content \<and> hasBuildScriptApply content
      \<and> androidManifestFile w = Some (Wellformed doc)
      \<and> isMetadataSetAndroid L doc exp username = Inr True)"
  by (simp add: configureUpdatesAndroidAsync_eq writes_def logged_def Let_def
        split: option.splits parsed.splits sum.splits bool.splits)

text \<open>
  On Android the predicate and the pass agree: in a project with expo-updates installed whose
  configuration declares a version, the predicate returns \<^verbatim>\<open>true\<close> exactly when the pass,
  run next with the resolved configuration, completes and writes no file.
\<close>

lemma android_predicate_agrees_with_pass:
  assumes "dependencies w = Some ds" and "''expo-updates'' \<in> set ds"
    and "truthy (runtimeVersion (exp_config w)) \<or> truthy (sdkVersion (exp_config w))"
  shows "fst (isUpdatesConfiguredAndroidAsync L w) = Inr True \<longleftrightarrow>
           (let w' = snd (isUpdatesConfiguredAndroidAsync L w);
                r = configureUpdatesAndroidAsync L (exp_config w) (currentUsername w) w'
            in fst r = Inr () \<and> writes (snd r) = writes w')"
  unfolding Let_def configureUpdatesAndroidAsync_no_write_iff
  by (simp add: isUpdatesConfiguredAndroidAsync_true_iff [OF assms]
        isUpdatesConfiguredAndroidAsync_frame [OF assms])

text \<open>
  Claim C1 says that a predicate returns \<^verbatim>\<open>true\<close> if and only if the pass of its
  platform, run next, writes no file. In the configured example project the iOS predicate
  returns \<^verbatim>\<open>true\<close> without writing, and the iOS pass run next writes
  \<^verbatim>\<open>project.pbxproj\<close> and \<^verbatim>\<open>Expo.plist\<close>; so does the public entry point, whose
  Android pass writes nothing there. The iOS pass consults neither the hook check nor
  \<^verbatim>\<open>isMetadataSetIOS\<close> before its writes, where the Android pass guards both of its
  writes.
\<close>

theorem ios_predicate_true_and_pass_writes:
  "fst (isUpdatesConfiguredIOSAsync specLibrary configuredProject) = Inr True
   \<and> writes (snd (isUpdatesConfiguredIOSAsync specLibrary configuredProject)) = []
   \<and> writes (snd (configureUpdatesIOSAsync specLibrary cleanGit exampleConfig (Some ''owner'')
                    (snd (isUpdatesConfiguredIOSAsync specLibrary configuredProject))))
       = [WriteFile (PbxprojPath ''app.xcodeproj''), WriteFile (ExpoPlistPath ''app'')]
   \<and> writes (snd (configureUpdatesAsync specLibrary cleanGit False
                    (snd (isUpdatesConfiguredIOSAsync specLibrary configuredProject))))
       = [WriteFile (PbxprojPath ''app.xcodeproj''), WriteFile (ExpoPlistPath ''app'')]"
  by code_simp

subsection \<open>Running the full pass twice\<close>

lemma configureUpdatesAndroidAsync_frame:
  "pbxprojFiles (snd (configureUpdatesAndroidAsync L exp username w)) = pbxprojFiles w
   \<and> expoPlistFiles (snd (configureUpdatesAndroidAsync L exp username w)) = expoPlistFiles w
   \<and> dependencies (snd (configureUpdatesAndroidAsync L exp username w)) = dependencies w
   \<and> exp_config (snd (configureUpdatesAndroidAsync L exp username w)) = exp_config w
   \<and> currentUsername (snd (configureUpdatesAndroidAsync L exp username w)) = currentUsername w"
  by (simp add: configureUpdatesAndroidAsync_eq logged_def Let_def
        split: option.splits parsed.splits sum.splits bool.splits)

lemma configureUpdatesAndroidAsync_buildGradleFile:
  "buildGradleFile (snd (configureUpdatesAndroidAsync L exp username w)) =
     (case buildGradleFile w of
        None \<Rightarrow> None
      | Some content \<Rightarrow>
          Some (if hasBuildScriptApply content then content
                else content @ [newline] @ ''// Integration with Expo updates'' @ [newline]
                       @ androidBuildScript @ [newline]))"
  by (simp add: configureUpdatesAndroidAsync_eq logged_def Let_def
        split: option.splits parsed.splits sum.splits bool.splits)

lemma configureUpdatesAndroidAsync_androidManifestFile:
  "androidManifestFile (snd (configureUpdatesAndroidAsync L exp username w)) =
     (case (buildGradleFile w, androidManifestFile w) of
        (Some content, Some (Wellformed doc)) \<Rightarrow>
          (case isMetadataSetAndroid L doc exp username of
             Inr False \<Rightarrow>
               (case Android_setUpdatesConfig L exp doc username of
                  Inr result \<Rightarrow> Some (Wellformed result)
                | Inl e \<Rightarrow> androidManifestFile w)
           | _ \<Rightarrow> androidManifestFile w)
      | _ \<Rightarrow> androidManifestFile w)"
  by (simp add: configureUpdatesAndroidAsync_eq logged_def Let_def
        split: option.splits parsed.splits sum.splits bool.splits)

lemma configureUpdatesAndroidAsync_fst:
  "fst (configureUpdatesAndroidAsync L exp username w) =
     (case buildGradleFile w of
        None \<Rightarrow> Inl BuildScriptNotFound
      | Some content \<Rightarrow>
          (case androidManifestFile w of
             None \<Rightarrow> Inl ManifestNotFound
           | Some Malformed \<Rightarrow> Inl ManifestParseError
           | Some (Wellformed doc) \<Rightarrow>
               (case isMetadataSetAndroid L doc exp username of
                  Inl e \<Rightarrow> Inl e
                | Inr True \<Rightarrow> Inr ()
                | Inr False \<Rightarrow>
                    (case Android_setUpdatesConfig L exp doc username of
                       Inl e \<Rightarrow> Inl e
                     | Inr result \<Rightarrow> Inr ()))))"
  by (simp add: configureUpdatesAndroidAsync_eq logged_def Let_def
        split: option.splits parsed.splits sum.splits bool.splits)

lemma configureUpdatesAndroidAsync_idem:
  assumes idem: "\<forall>doc doc' doc''. Android_setUpdatesConfig L exp doc username = Inr doc'
             \<and> Android_setUpdatesConfig L exp doc' username = Inr doc'' \<longrightarrow> doc'' = doc'"
    and "buildGradleFile w' = buildGradleFile (snd (configureUpdatesAndroidAsync L exp username w))"
    and "androidManifestFile w'
           = androidManifestFile (snd (configureUpdatesAndroidAsync L exp username w))"
  shows "buildGradleFile (snd (configureUpdatesAndroidAsync L exp username w')) = buildGradleFile w'
       \<and> androidManifestFile (snd (configureUpdatesAndroidAsync L exp username w'))
           = androidManifestFile w'"
proof
  show "buildGradleFile (snd (configureUpdatesAndroidAsync L exp username w')) = buildGradleFile w'"
  proof (cases "buildGradleFile w")
    case None
    with assms(2) show ?thesis
      by (simp add: configureUpdatesAndroidAsync_buildGradleFile)
  next
    case (Some content)
    define content' where
      "content' = (if hasBuildScriptApply content then content
                   else content @ [newline] @ ''// Integration with Expo updates'' @ [newline]
                          @ androidBuildScript @ [newline])"
    have has: "hasBuildScriptApply content'"
      unfolding content'_def
      by (cases "hasBuildScriptApply content")
         (simp_all only: if_True if_False hasBuildScriptApply_appended)
    have "buildGradleFile w' = Some content'"
      using assms(2) Some unfolding content'_def
      by (simp only: configureUpdatesAndroidAsync_buildGradleFile option.case)
    with has show ?thesis
      by (simp add: configureUpdatesAndroidAsync_buildGradleFile)
  qed
  show "androidManifestFile (snd (configureUpdatesAndroidAsync L exp username w'))
           = androidManifestFile w'"
  proof (cases "buildGradleFile w")
    case None
    with assms(2,3) show ?thesis
      by (simp add: configureUpdatesAndroidAsync_androidManifestFile
            configureUpdatesAndroidAsync_buildGradleFile)
  next
    case (Some content)
    with assms(2) obtain content' where "buildGradleFile w' = Some content'"
      by (simp only: configureUpdatesAndroidAsync_buildGradleFile option.case)
    with Some assms(3) idem show ?thesis
      by (auto simp: configureUpdatesAndroidAsync_androidManifestFile
            split: option.splits parsed.splits sum.splits bool.splits)
  qed
qed

lemma configureUpdatesAndroidAsync_error_stable:
  assumes "fst (configureUpdatesAndroidAsync L exp username w) = Inl e"
    and "buildGradleFile w' = buildGradleFile (snd (configureUpdatesAndroidAsync L exp username w))"
    and "androidManifestFile w'
           = androidManifestFile (snd (configureUpdatesAndroidAsync L exp username w))"
  shows "fst (configureUpdatesAndroidAsync L exp username w') = Inl e"
proof (cases "buildGradleFile w")
  case None
  with assms show ?thesis
    by (simp add: configureUpdatesAndroidAsync_fst configureUpdatesAndroidAsync_buildGradleFile)
next
  case (Some content)
  with assms(2) obtain content' where "buildGradleFile w' = Some content'"
    by (simp only: configureUpdatesAndroidAsync_buildGradleFile option.case)
  with Some assms(1,3) show ?thesis
    by (auto simp: configureUpdatesAndroidAsync_fst
          configureUpdatesAndroidAsync_androidManifestFile
          split: option.splits parsed.splits sum.splits bool.splits)
qed

lemma startsWith_prefix: "startsWith s sub \<longleftrightarrow> prefix sub s"
  by (induction s sub rule: startsWith.induct) auto

lemma includes_str_sublist: "includes_str s sub \<longleftrightarrow> sublist sub s"
  by (induction s) (auto simp: startsWith_prefix sublist_Cons_right)

lemma includes_str_appended: "includes_str (before @ sub @ after) sub"
  by (simp add: includes_str_sublist)

lemma findIndex_Some:
  "findIndex P xs = Some i \<Longrightarrow> i < length xs \<and> P (xs ! i)"
  by (induction xs arbitrary: i) (auto split: if_splits)

lemma findIndex_update:
  "findIndex P xs = Some i \<Longrightarrow> P y \<Longrightarrow> findIndex P (xs[i := y]) = Some i"
  by (induction xs arbitrary: i) (auto split: if_splits)

lemma appendBuildScript_again:
  assumes "PBXShellScriptBuildPhase project = Some scriptBuildPhase"
    and "findIndex (\<lambda>buildPhase. name buildPhase = Some bundlePhaseName) scriptBuildPhase
           = Some i"
    and "appendBuildScript project i = Inr project'"
  shows "\<exists>scriptBuildPhase'.
           PBXShellScriptBuildPhase project' = Some scriptBuildPhase'
           \<and> findIndex (\<lambda>buildPhase. name buildPhase = Some bundlePhaseName) scriptBuildPhase'
               = Some i
           \<and> appendBuildScript project' i = Inr project'"
proof -
  from assms(1,3) obtain script where
    script: "shellScript (scriptBuildPhase ! i) = Some script"
    by (auto simp: appendBuildScript_def shellScript_of_def and_then_def split: option.splits)
  have i: "i < length scriptBuildPhase"
    and nm: "name (scriptBuildPhase ! i) = Some bundlePhaseName"
    using findIndex_Some [OF assms(2)] by simp_all
  show ?thesis
  proof (cases "includes_str script iOSBuildScript")
    case True
    with assms script show ?thesis
      by (simp add: appendBuildScript_def shellScript_of_def and_then_def)
  next
    case False
    let ?script' = "replace_trailing_dquote script @ iOSBuildScript
                      @ [backslash, CHR ''n'', dquote]"
    let ?phases' = "scriptBuildPhase[i := (scriptBuildPhase ! i)\<lparr>shellScript := Some ?script'\<rparr>]"
    have p': "project' = project\<lparr>PBXShellScriptBuildPhase := Some ?phases'\<rparr>"
      using assms(1,3) script False
      by (simp add: appendBuildScript_def shellScript_of_def and_then_def)
    have hook: "includes_str ?script' iOSBuildScript"
      by (rule includes_str_appended)
    have found: "findIndex (\<lambda>buildPhase. name buildPhase = Some bundlePhaseName) ?phases'
                   = Some i"
      using assms(2) nm by (simp add: findIndex_update)
    have "appendBuildScript project' i = Inr project'"
      using i hook by (simp add: p' appendBuildScript_def shellScript_of_def and_then_def)
    with found show ?thesis by (simp add: p')
  qed
qed

lemma modifyExpoPlistAsync_frame:
  "buildGradleFile (snd (modifyExpoPlistAsync G callback w)) = buildGradleFile w
   \<and> androidManifestFile (snd (modifyExpoPlistAsync G callback w)) = androidManifestFile w
   \<and> dependencies (snd (modifyExpoPlistAsync G callback w)) = dependencies w
   \<and> exp_config (snd (modifyExpoPlistAsync G callback w)) = exp_config w
   \<and> currentUsername (snd (modifyExpoPlistAsync G callback w)) = currentUsername w"
  by (simp add: modifyExpoPlistAsync_eq logged_def Let_def
        split: list.splits prod.splits option.splits parsed.splits sum.splits
               callback_result.splits)

lemma configureUpdatesIOSAsync_frame:
  "buildGradleFile (snd (configureUpdatesIOSAsync L G exp username w)) = buildGradleFile w
   \<and> androidManifestFile (snd (configureUpdatesIOSAsync L G exp username w))
       = androidManifestFile w
   \<and> dependencies (snd (configureUpdatesIOSAsync L G exp username w)) = dependencies w
   \<and> exp_config (snd (configureUpdatesIOSAsync L G exp username w)) = exp_config w
   \<and> currentUsername (snd (configureUpdatesIOSAsync L G exp username w)) = currentUsername w"
  by (simp add: configureUpdatesIOSAsync_eq modifyExpoPlistAsync_frame logged_def Let_def
        split: list.splits prod.splits option.splits parsed.splits sum.splits)

lemma modifyExpoPlistAsync_expoPlistFiles:
  "expoPlistFiles (snd (modifyExpoPlistAsync G callback w)) =
     (case pbxprojFiles w of
        [] \<Rightarrow> expoPlistFiles w
      | (pbxprojPath, f) # _ \<Rightarrow>
          (case map_of (expoPlistFiles w) (getExpoPlistPath pbxprojPath) of
             Some Malformed \<Rightarrow> expoPlistFiles w
           | found \<Rightarrow>
               (case callback (case found of Some (Wellformed expoPlist) \<Rightarrow> expoPlist | _ \<Rightarrow> []) of
                  Inr (NewObject updated) \<Rightarrow>
                    AList.update (getExpoPlistPath pbxprojPath) (Wellformed updated)
                      (expoPlistFiles w)
                | _ \<Rightarrow> expoPlistFiles w)))"
  by (simp add: modifyExpoPlistAsync_eq logged_def Let_def
        split: list.splits prod.splits option.splits parsed.splits sum.splits
               callback_result.splits)

lemma modifyExpoPlistAsync_idem:
  assumes idem: "\<forall>p p' p''. callback p = Inr (NewObject p')
             \<and> callback p' = Inr (NewObject p'') \<longrightarrow> p'' = p'"
    and "pbxprojFiles w' = pbxprojFiles w"
    and "expoPlistFiles w' = expoPlistFiles (snd (modifyExpoPlistAsync G callback w))"
  shows "expoPlistFiles (snd (modifyExpoPlistAsync G' callback w')) = expoPlistFiles w'"
  using assms
  by (auto simp: modifyExpoPlistAsync_expoPlistFiles update_conv' update_triv
        split: list.splits prod.splits option.splits parsed.splits sum.splits
               callback_result.splits)

lemma configureUpdatesIOSAsync_idem:
  assumes idem: "\<forall>p p' p''. IOS_setUpdatesConfig L exp p username = Inr (NewObject p')
             \<and> IOS_setUpdatesConfig L exp p' username = Inr (NewObject p'') \<longrightarrow> p'' = p'"
    and pbx: "pbxprojFiles w' = pbxprojFiles (snd (configureUpdatesIOSAsync L G exp username w))"
    and plist: "expoPlistFiles w'
                  = expoPlistFiles (snd (configureUpdatesIOSAsync L G exp username w))"
  shows "pbxprojFiles (snd (configureUpdatesIOSAsync L G' exp username w')) = pbxprojFiles w'
       \<and> expoPlistFiles (snd (configureUpdatesIOSAsync L G' exp username w')) = expoPlistFiles w'"
proof -
  let ?P = "\<lambda>buildPhase. name buildPhase = Some bundlePhaseName"
  let ?cb = "\<lambda>expoPlist. IOS_setUpdatesConfig L exp expoPlist username"
  consider
      (stop) "\<forall>pbxprojPath project others scriptBuildPhase i project'.
                pbxprojFiles w = (pbxprojPath, Wellformed project) # others
                \<and> PBXShellScriptBuildPhase project = Some scriptBuildPhase
                \<and> findIndex ?P scriptBuildPhase = Some i
                \<longrightarrow> appendBuildScript project i \<noteq> Inr project'"
    | (go) pbxprojPath project others scriptBuildPhase i project' where
        "pbxprojFiles w = (pbxprojPath, Wellformed project) # others"
        "PBXShellScriptBuildPhase project = Some scriptBuildPhase"
        "findIndex ?P scriptBuildPhase = Some i"
        "appendBuildScript project i = Inr project'"
    by blast
  then show ?thesis
  proof cases
    case stop
    then have same: "pbxprojFiles (snd (configureUpdatesIOSAsync L G exp username w))
                       = pbxprojFiles w"
      "expoPlistFiles (snd (configureUpdatesIOSAsync L G exp username w)) = expoPlistFiles w"
      by (auto simp: configureUpdatesIOSAsync_eq logged_def Let_def
            split: list.splits prod.splits option.splits parsed.splits sum.splits)
    with pbx plist stop show ?thesis
      by (auto simp: configureUpdatesIOSAsync_eq logged_def Let_def
            split: list.splits prod.splits option.splits parsed.splits sum.splits)
  next
    case go
    let ?w1 = "logged (WriteFile (PbxprojPath pbxprojPath))
                 ((logged (ReadFile (PbxprojPath pbxprojPath)) (logged Glob w))
                    \<lparr>pbxprojFiles := (pbxprojPath, Wellformed project') # others\<rparr>)"
    let ?w1' = "logged (WriteFile (PbxprojPath pbxprojPath))
                 ((logged (ReadFile (PbxprojPath pbxprojPath)) (logged Glob w'))
                    \<lparr>pbxprojFiles := (pbxprojPath, Wellformed project') # others\<rparr>)"
    have first: "configureUpdatesIOSAsync L G exp username w = modifyExpoPlistAsync G ?cb ?w1"
      using go by (simp add: configureUpdatesIOSAsync_eq)
    have pbx': "pbxprojFiles w' = (pbxprojPath, Wellformed project') # others"
      using pbx first by (simp add: modifyExpoPlistAsync_pbxprojFiles logged_def)
    from appendBuildScript_again [OF go(2,3,4)] obtain scriptBuildPhase' where
      "PBXShellScriptBuildPhase project' = Some scriptBuildPhase'"
      "findIndex ?P scriptBuildPhase' = Some i"
      "appendBuildScript project' i = Inr project'"
      by blast
    with pbx' have second:
      "configureUpdatesIOSAsync L G' exp username w' = modifyExpoPlistAsync G' ?cb ?w1'"
      by (simp add: configureUpdatesIOSAsync_eq)
    have "expoPlistFiles (snd (modifyExpoPlistAsync G' ?cb ?w1')) = expoPlistFiles ?w1'"
    proof (rule modifyExpoPlistAsync_idem [OF idem])
      show "pbxprojFiles ?w1' = pbxprojFiles ?w1" by (simp add: logged_def)
      show "expoPlistFiles ?w1' = expoPlistFiles (snd (modifyExpoPlistAsync G ?cb ?w1))"
        using plist first by (simp add: logged_def)
    qed
    then show ?thesis
      using pbx' by (simp add: second modifyExpoPlistAsync_pbxprojFiles logged_def)
  qed
qed

lemma abortOrRethrow_frame:
  "(snd (abortOrRethrow G message nonInteractive err w))\<lparr>trace := []\<rparr> = w\<lparr>trace := []\<rparr>"
  by (simp add: abortOrRethrow_def try_catch_def reviewAndCommitChangesAsync_def throw_def
        logged_def split: sum.splits)

lemma untraced_fields:
  assumes "(w :: world)\<lparr>trace := []\<rparr> = v\<lparr>trace := []\<rparr>"
  shows "onDisk w = onDisk v" and "dependencies w = dependencies v"
    and "exp_config w = exp_config v" and "currentUsername w = currentUsername v"
proof -
  have "pbxprojFiles (w\<lparr>trace := []\<rparr>) = pbxprojFiles (v\<lparr>trace := []\<rparr>)"
    "expoPlistFiles (w\<lparr>trace := []\<rparr>) = expoPlistFiles (v\<lparr>trace := []\<rparr>)"
    "buildGradleFile (w\<lparr>trace := []\<rparr>) = buildGradleFile (v\<lparr>trace := []\<rparr>)"
    "androidManifestFile (w\<lparr>trace := []\<rparr>) = androidManifestFile (v\<lparr>trace := []\<rparr>)"
    "dependencies (w\<lparr>trace := []\<rparr>) = dependencies (v\<lparr>trace := []\<rparr>)"
    "exp_config (w\<lparr>trace := []\<rparr>) = exp_config (v\<lparr>trace := []\<rparr>)"
    "currentUsername (w\<lparr>trace := []\<rparr>) = currentUsername (v\<lparr>trace := []\<rparr>)"
    using assms by simp_all
  then show "onDisk w = onDisk v" and "dependencies w = dependencies v"
    and "exp_config w = exp_config v" and "currentUsername w = currentUsername v"
    by (simp_all add: onDisk_def)
qed

lemma configureUpdatesAsync_not_installed:
  assumes "\<not> (\<exists>ds. dependencies w = Some ds \<and> ''expo-updates'' \<in> set ds)"
  shows "snd (configureUpdatesAsync L G nonInteractive w) = logged GetPackageJson w"
  using assms
  by (simp add: configureUpdatesAsync_def isExpoUpdatesInstalled_eq await_def return_io_def)

lemma configureUpdatesAsync_unresolved:
  assumes "dependencies w = Some ds" and "''expo-updates'' \<in> set ds"
    and "\<not> (truthy (runtimeVersion (exp_config w)) \<or> truthy (sdkVersion (exp_config w)))"
  shows "snd (configureUpdatesAsync L G nonInteractive w)
           = logged GetConfig (logged GetCurrentUsername (logged GetPackageJson w))"
  using assms(3)
  by (simp add: configureUpdatesAsync_installed [OF assms(1,2)] configureUpdates_try_def
        getConfigurationOptionsAsync_eq abortOrRethrow_def await_def throw_def logged_def)

lemma configureUpdatesAsync_untraced:
  assumes "dependencies w = Some ds" and "''expo-updates'' \<in> set ds"
    and "truthy (runtimeVersion (exp_config w)) \<or> truthy (sdkVersion (exp_config w))"
  shows "(snd (configureUpdatesAsync L G nonInteractive w))\<lparr>trace := []\<rparr> =
     (let w1 = logged GetConfig (logged GetCurrentUsername (logged GetPackageJson w));
          a = configureUpdatesAndroidAsync L (exp_config w) (currentUsername w) w1
      in case fst a of
           Inl e \<Rightarrow> (snd a)\<lparr>trace := []\<rparr>
         | Inr u \<Rightarrow>
             (snd (configureUpdatesIOSAsync L G (exp_config w) (currentUsername w) (snd a)))
               \<lparr>trace := []\<rparr>)"
proof -
  let ?w1 = "logged GetConfig (logged GetCurrentUsername (logged GetPackageJson w))"
  obtain ra wa where a: "configureUpdatesAndroidAsync L (exp_config w) (currentUsername w) ?w1
                           = (ra, wa)"
    by (cases "configureUpdatesAndroidAsync L (exp_config w) (currentUsername w) ?w1")
  obtain ri wi where i: "configureUpdatesIOSAsync L G (exp_config w) (currentUsername w) wa
                           = (ri, wi)"
    by (cases "configureUpdatesIOSAsync L G (exp_config w) (currentUsername w) wa")
  have conf: "getConfigurationOptionsAsync (logged GetPackageJson w)
                = (Inr (exp_config w, currentUsername w), ?w1)"
    using assms(3) by (auto simp: getConfigurationOptionsAsync_eq logged_def)
  show ?thesis
  proof (cases ra)
    case (Inl e)
    then show ?thesis using a conf
      by (simp add: configureUpdatesAsync_installed [OF assms(1,2)] configureUpdates_try_def
            await_def abortOrRethrow_frame)
  next
    case (Inr u)
    show ?thesis
    proof (cases ri)
      case (Inl e)
      then show ?thesis using a i conf Inr
        by (simp add: configureUpdatesAsync_installed [OF assms(1,2)] configureUpdates_try_def
              await_def abortOrRethrow_frame)
    next
      case (Inr u')
      then show ?thesis using a i conf \<open>ra = Inr u\<close>
        by (simp add: configureUpdatesAsync_installed [OF assms(1,2)] configureUpdates_try_def
              await_def ensureGitStatusIsCleanAsync_def outcome_def abortOrRethrow_frame
              logged_def split: option.splits)
    qed
  qed
qed

lemma putMetaData_same:
  "putMetaData nm v items = Some items'
   \<Longrightarrow> \<exists>attrs'. find_meta_data nm items' = Inr (Some attrs')
         \<and> map_of attrs' ''android:value'' = Some v"
  by (induction items arbitrary: items')
     (auto simp: update_conv' split: option.splits if_splits)

lemma putMetaData_other:
  "nm' \<noteq> nm \<Longrightarrow> putMetaData nm v items = Some items'
   \<Longrightarrow> find_meta_data nm' items' = find_meta_data nm' items"
  by (induction items arbitrary: items')
     (auto simp: update_conv' split: option.splits if_splits)

lemma putMetaData_trivial:
  "find_meta_data nm items = Inr (Some attrs) \<Longrightarrow> map_of attrs ''android:value'' = Some v
   \<Longrightarrow> putMetaData nm v items = Some items"
proof (induction items)
  case Nil
  then show ?case by simp
next
  case (Cons item items)
  then show ?case
    by (cases item) (auto simp: update_triv split: option.splits if_splits)
qed

lemma putMainApplication_same:
  "putMainApplication nm v apps = Some apps'
   \<Longrightarrow> getAndroidMetadataValue (doc\<lparr>application := apps'\<rparr>) nm = Inr (Some v)"
proof (induction apps arbitrary: apps')
  case Nil
  then show ?case by simp
next
  case (Cons e es)
  from Cons.prems obtain attrs where attrs: "app_attrs e = Some attrs"
    by (auto split: option.splits)
  show ?case
  proof (cases "map_of attrs ''android:name'' = Some ''.MainApplication''")
    case True
    from Cons.prems attrs True obtain items' where
      rest: "list_all (\<lambda>e'. app_attrs e' \<noteq> None) es"
      and put: "putMetaData nm v (case meta_data e of None \<Rightarrow> [] | Some items \<Rightarrow> items)
                  = Some items'"
      and apps': "apps' = Application (Some attrs) (Some items') # es"
      by (auto split: if_splits)
    from putMetaData_same [OF put] obtain attrs' where
      "find_meta_data nm items' = Inr (Some attrs')" "map_of attrs' ''android:value'' = Some v"
      by blast
    with rest True show ?thesis
      by (simp add: apps' getAndroidMetadataValue_Cons_main [where attrs = attrs])
  next
    case False
    with Cons.prems attrs obtain es' where es': "putMainApplication nm v es = Some es'"
      and apps': "apps' = e # es'"
      by auto
    from Cons.IH [OF es'] show ?thesis
      by (simp add: apps' getAndroidMetadataValue_Cons_other [OF attrs False])
  qed
qed

lemma putMainApplication_other:
  "nm' \<noteq> nm \<Longrightarrow> putMainApplication nm v apps = Some apps'
   \<Longrightarrow> getAndroidMetadataValue (doc\<lparr>application := apps'\<rparr>) nm'
       = getAndroidMetadataValue (doc\<lparr>application := apps\<rparr>) nm'"
proof (induction apps arbitrary: apps')
  case Nil
  then show ?case by simp
next
  case (Cons e es)
  from Cons.prems obtain attrs where attrs: "app_attrs e = Some attrs"
    by (auto split: option.splits)
  show ?case
  proof (cases "map_of attrs ''android:name'' = Some ''.MainApplication''")
    case True
    from Cons.prems attrs True obtain items' where
      rest: "list_all (\<lambda>e'. app_attrs e' \<noteq> None) es"
      and put: "putMetaData nm v (case meta_data e of None \<Rightarrow> [] | Some items \<Rightarrow> items)
                  = Some items'"
      and apps': "apps' = Application (Some attrs) (Some items') # es"
      by (auto split: if_splits)
    have "find_meta_data nm' items'
            = find_meta_data nm' (case meta_data e of None \<Rightarrow> [] | Some items \<Rightarrow> items)"
      using Cons.prems(1) put by (rule putMetaData_other)
    with rest True attrs show ?thesis
      by (simp add: apps' getAndroidMetadataValue_Cons_main [where attrs = attrs]
            split: option.splits)
  next
    case False
    with Cons.prems attrs obtain es' where es': "putMainApplication nm v es = Some es'"
      and apps': "apps' = e # es'"
      by auto
    from Cons.IH [OF Cons.prems(1) es'] show ?thesis
      by (simp add: apps' getAndroidMetadataValue_Cons_other [OF attrs False])
  qed
qed

lemma putMainApplication_trivial:
  "getAndroidMetadataValue (doc\<lparr>application := apps\<rparr>) nm = Inr (Some v)
   \<Longrightarrow> putMainApplication nm v apps = Some apps"
proof (induction apps)
  case Nil
  then show ?case by (simp add: getAndroidMetadataValue_def and_then_def)
next
  case (Cons e es)
  show ?case
  proof (cases "app_attrs e")
    case None
    with Cons.prems show ?thesis by (simp add: getAndroidMetadataValue_Cons_bare)
  next
    case (Some attrs)
    show ?thesis
    proof (cases "map_of attrs ''android:name'' = Some ''.MainApplication''")
      case True
      from Cons.prems obtain items attrs' where
        rest: "list_all (\<lambda>e'. app_attrs e' \<noteq> None) es"
        and items: "meta_data e = Some items"
        and found: "find_meta_data nm items = Inr (Some attrs')"
        and val: "map_of attrs' ''android:value'' = Some v"
        by (auto simp: getAndroidMetadataValue_Cons_main [OF Some True]
              split: if_splits option.splits sum.splits)
      from putMetaData_trivial [OF found val] rest items Some True show ?thesis
        by (cases e) simp
    next
      case False
      with Cons Some show ?thesis
        by (simp add: getAndroidMetadataValue_Cons_other [OF Some False])
    qed
  qed
qed

lemma setAndroidMetadataValue_same:
  "setAndroidMetadataValue nm (Some v) doc = Inr doc'
   \<Longrightarrow> getAndroidMetadataValue doc' nm = Inr (Some v)"
  using putMainApplication_same [where apps = "application doc" and doc = doc and nm = nm and v = v]
  by (auto simp: setAndroidMetadataValue_def split: option.splits)

lemma setAndroidMetadataValue_other:
  "nm' \<noteq> nm \<Longrightarrow> setAndroidMetadataValue nm value doc = Inr doc'
   \<Longrightarrow> getAndroidMetadataValue doc' nm' = getAndroidMetadataValue doc nm'"
  using putMainApplication_other [where apps = "application doc" and doc = doc and nm = nm and nm' = nm']
  by (auto simp: setAndroidMetadataValue_def split: option.splits)

lemma setAndroidMetadataValue_trivial:
  "value = None \<or> getAndroidMetadataValue doc nm = Inr value
   \<Longrightarrow> setAndroidMetadataValue nm value doc = Inr doc"
  using putMainApplication_trivial [where apps = "application doc" and doc = doc and nm = nm]
  by (auto simp: setAndroidMetadataValue_def split: option.splits)

lemma spec_Android_setUpdatesConfig_idem:
  assumes "spec_Android_setUpdatesConfig exp doc username = Inr doc'"
  shows "spec_Android_setUpdatesConfig exp doc' username = Inr doc'"
proof -
  from assms obtain d1 d2 where
    s1: "setAndroidMetadataValue ''UPDATE_URL'' (spec_getUpdateUrl exp username) doc = Inr d1"
    and s2: "setAndroidMetadataValue ''SDK_VERSION'' (sdkVersion exp) d1 = Inr d2"
    and s3: "setAndroidMetadataValue ''RUNTIME_VERSION'' (runtimeVersion exp) d2 = Inr doc'"
    by (auto simp: spec_Android_setUpdatesConfig_def spec_Android_setVersionsConfig_def
          and_then_def split: sum.splits)
  have url: "spec_getUpdateUrl exp username = None
             \<or> getAndroidMetadataValue doc' ''UPDATE_URL'' = Inr (spec_getUpdateUrl exp username)"
  proof (cases "spec_getUpdateUrl exp username")
    case None
    then show ?thesis by simp
  next
    case (Some v)
    with s1 have "getAndroidMetadataValue d1 ''UPDATE_URL'' = Inr (Some v)"
      by (simp add: setAndroidMetadataValue_same)
    then have "getAndroidMetadataValue doc' ''UPDATE_URL'' = Inr (Some v)"
      using setAndroidMetadataValue_other [OF _ s2, of "''UPDATE_URL''"]
            setAndroidMetadataValue_other [OF _ s3, of "''UPDATE_URL''"]
      by simp
    with Some show ?thesis by simp
  qed
  have sdk: "sdkVersion exp = None
             \<or> getAndroidMetadataValue doc' ''SDK_VERSION'' = Inr (sdkVersion exp)"
  proof (cases "sdkVersion exp")
    case None
    then show ?thesis by simp
  next
    case (Some v)
    with s2 have "getAndroidMetadataValue d2 ''SDK_VERSION'' = Inr (Some v)"
      by (simp add: setAndroidMetadataValue_same)
    then have "getAndroidMetadataValue doc' ''SDK_VERSION'' = Inr (Some v)"
      using setAndroidMetadataValue_other [OF _ s3, of "''SDK_VERSION''"]
      by simp
    with Some show ?thesis by simp
  qed
  have rt: "runtimeVersion exp = None
             \<or> getAndroidMetadataValue doc' ''RUNTIME_VERSION'' = Inr (runtimeVersion exp)"
    using s3 by (cases "runtimeVersion exp") (simp_all add: setAndroidMetadataValue_same)
  show ?thesis
    using setAndroidMetadataValue_trivial [OF url] setAndroidMetadataValue_trivial [OF sdk]
          setAndroidMetadataValue_trivial [OF rt]
    by (simp add: spec_Android_setUpdatesConfig_def spec_Android_setVersionsConfig_def
          and_then_def)
qed

lemma spec_IOS_setUpdatesConfig_idem:
  assumes "spec_IOS_setUpdatesConfig exp p username = Inr (NewObject p')"
  shows "spec_IOS_setUpdatesConfig exp p' username = Inr (NewObject p')"
  using assms
  by (auto simp: spec_IOS_setUpdatesConfig_def spec_IOS_setVersionsConfig_def setPlistValue_def
        update_conv' update_triv split: option.splits)

text \<open>
  Claim C3. Provided that \<^verbatim>\<open>setUpdatesConfig\<close> of the Android helpers and of the iOS
  helpers are idempotent for the configuration and account of the project (their code is not
  part of the file), a second run of \<^verbatim>\<open>configureUpdatesAsync\<close> leaves every file as the
  first run left it. This holds whatever the two runs return and whatever the version-control
  helpers answer in each of them. Files are compared as the documents they hold.
\<close>

theorem configureUpdatesAsync_twice:
  assumes idemA:
      "\<forall>doc doc' doc''.
         Android_setUpdatesConfig L (exp_config w) doc (currentUsername w) = Inr doc'
         \<and> Android_setUpdatesConfig L (exp_config w) doc' (currentUsername w) = Inr doc''
         \<longrightarrow> doc'' = doc'"
    and idemI:
      "\<forall>p p' p''.
         IOS_setUpdatesConfig L (exp_config w) p (currentUsername w) = Inr (NewObject p')
         \<and> IOS_setUpdatesConfig L (exp_config w) p' (currentUsername w) = Inr (NewObject p'')
         \<longrightarrow> p'' = p'"
  shows "onDisk (snd (configureUpdatesAsync L G' nonInteractive'
                        (snd (configureUpdatesAsync L G nonInteractive w))))
           = onDisk (snd (configureUpdatesAsync L G nonInteractive w))"
proof -
  let ?run1 = "snd (configureUpdatesAsync L G nonInteractive w)"
  let ?run2 = "snd (configureUpdatesAsync L G' nonInteractive' ?run1)"
  let ?exp = "exp_config w" and ?user = "currentUsername w"
  let ?installed = "\<lambda>v. \<exists>ds. dependencies v = Some ds \<and> ''expo-updates'' \<in> set ds"
  let ?resolved = "\<lambda>v. truthy (runtimeVersion (exp_config v)) \<or> truthy (sdkVersion (exp_config v))"
  show ?thesis
  proof (cases "?installed w")
    case False
    then have r1: "?run1 = logged GetPackageJson w"
      by (rule configureUpdatesAsync_not_installed)
    with False have "\<not> ?installed ?run1" by (simp add: logged_def)
    then have "?run2 = logged GetPackageJson ?run1"
      by (rule configureUpdatesAsync_not_installed)
    then show ?thesis by (simp add: onDisk_def logged_def)
  next
    case True
    then obtain ds where inst: "dependencies w = Some ds" "''expo-updates'' \<in> set ds"
      by blast
    show ?thesis
    proof (cases "?resolved w")
      case False
      have r1: "?run1 = logged GetConfig (logged GetCurrentUsername (logged GetPackageJson w))"
        using inst False by (rule configureUpdatesAsync_unresolved)
      have d1: "dependencies ?run1 = Some ds" and n1: "\<not> ?resolved ?run1"
        using inst False by (simp_all add: r1 logged_def)
      have "?run2 = logged GetConfig (logged GetCurrentUsername (logged GetPackageJson ?run1))"
        using d1 inst(2) n1 by (rule configureUpdatesAsync_unresolved)
      then show ?thesis by (simp add: onDisk_def logged_def)
    next
      case res: True
      let ?w1 = "logged GetConfig (logged GetCurrentUsername (logged GetPackageJson w))"
      let ?a = "configureUpdatesAndroidAsync L ?exp ?user ?w1"
      let ?i = "configureUpdatesIOSAsync L G ?exp ?user (snd ?a)"
      let ?x = "case fst ?a of Inl e \<Rightarrow> snd ?a | Inr u \<Rightarrow> snd ?i"
      have "?run1\<lparr>trace := []\<rparr> = ?x\<lparr>trace := []\<rparr>"
        using configureUpdatesAsync_untraced [OF inst res, of L G nonInteractive]
        by (simp add: Let_def split: sum.splits)
      note r1 = untraced_fields [OF this]
      have xfields: "dependencies ?x = dependencies w" "exp_config ?x = exp_config w"
        "currentUsername ?x = currentUsername w"
        by (simp_all add: configureUpdatesAndroidAsync_frame configureUpdatesIOSAsync_frame
              logged_def split: sum.splits)
      have inst1: "dependencies ?run1 = Some ds"
        and exp1: "exp_config ?run1 = ?exp" and user1: "currentUsername ?run1 = ?user"
        using r1(2-4) xfields inst(1) by simp_all
      have res1: "?resolved ?run1" using res exp1 by simp
      let ?v1 = "logged GetConfig (logged GetCurrentUsername (logged GetPackageJson ?run1))"
      let ?a' = "configureUpdatesAndroidAsync L ?exp ?user ?v1"
      let ?i' = "configureUpdatesIOSAsync L G' ?exp ?user (snd ?a')"
      let ?y = "case fst ?a' of Inl e \<Rightarrow> snd ?a' | Inr u \<Rightarrow> snd ?i'"
      have "?run2\<lparr>trace := []\<rparr> = ?y\<lparr>trace := []\<rparr>"
        using configureUpdatesAsync_untraced [OF inst1 inst(2) res1, of L G' nonInteractive']
        by (simp add: Let_def exp1 user1 split: sum.splits)
      note r2 = untraced_fields(1) [OF this]
      have v1: "onDisk ?v1 = onDisk ?x"
        using r1(1) by (simp add: onDisk_def logged_def)
      have android_x: "buildGradleFile ?x = buildGradleFile (snd ?a)"
        "androidManifestFile ?x = androidManifestFile (snd ?a)"
        by (simp_all add: configureUpdatesIOSAsync_frame split: sum.splits)
      have android_v1: "buildGradleFile ?v1 = buildGradleFile (snd ?a)"
        "androidManifestFile ?v1 = androidManifestFile (snd ?a)"
        using v1 android_x by (simp_all add: onDisk_def)
      have a'_android: "buildGradleFile (snd ?a') = buildGradleFile ?v1"
        "androidManifestFile (snd ?a') = androidManifestFile ?v1"
        using configureUpdatesAndroidAsync_idem [OF idemA android_v1] by simp_all
      have a'_disk: "onDisk (snd ?a') = onDisk ?v1"
        using a'_android by (simp add: onDisk_def configureUpdatesAndroidAsync_frame)
      have "onDisk ?y = onDisk ?x"
      proof (cases "fst ?a")
        case (Inl e)
        have "fst ?a' = Inl e"
          using Inl android_v1 by (rule configureUpdatesAndroidAsync_error_stable)
        then show ?thesis using a'_disk v1 by simp
      next
        case (Inr u)
        show ?thesis
        proof (cases "fst ?a'")
          case (Inl e)
          then show ?thesis using a'_disk v1 by simp
        next
          case Inr': (Inr u')
          have ios: "pbxprojFiles (snd ?a') = pbxprojFiles (snd ?i)"
            "expoPlistFiles (snd ?a') = expoPlistFiles (snd ?i)"
            using a'_disk v1 Inr by (simp_all add: onDisk_def)
          from configureUpdatesIOSAsync_idem [OF idemI ios, of G']
          have "onDisk (snd ?i') = onDisk (snd ?a')"
            by (simp add: onDisk_def configureUpdatesIOSAsync_frame)
          then show ?thesis using Inr' a'_disk v1 by simp
        qed
      qed
      then show ?thesis using r1(1) r2 by simp
    qed
  qed
qed

theorem configureUpdatesAsync_twice_witness:
  "onDisk (snd (configureUpdatesAsync specLibrary cleanGit True
                  (snd (configureUpdatesAsync specLibrary dirtyGit False templateProject))))
     = onDisk (snd (configureUpdatesAsync specLibrary dirtyGit False templateProject))
   \<and> onDisk (snd (configureUpdatesAsync specLibrary dirtyGit False templateProject))
       \<noteq> onDisk templateProject"
proof -
  have idemA:
    "\<forall>doc doc' doc''.
       Android_setUpdatesConfig specLibrary (exp_config templateProject) doc
         (currentUsername templateProject) = Inr doc'
       \<and> Android_setUpdatesConfig specLibrary (exp_config templateProject) doc'
           (currentUsername templateProject) = Inr doc''
       \<longrightarrow> doc'' = doc'"
    using spec_Android_setUpdatesConfig_idem by (auto simp: specLibrary_def)
  have idemI:
    "\<forall>p p' p''.
       IOS_setUpdatesConfig specLibrary (exp_config templateProject) p
         (currentUsername templateProject) = Inr (NewObject p')
       \<and> IOS_setUpdatesConfig specLibrary (exp_config templateProject) p'
           (currentUsername templateProject) = Inr (NewObject p'')
       \<longrightarrow> p'' = p'"
    using spec_IOS_setUpdatesConfig_idem by (auto simp: specLibrary_def)
  have changed: "onDisk (snd (configureUpdatesAsync specLibrary dirtyGit False templateProject))
                   \<noteq> onDisk templateProject"
    by code_simp
  from configureUpdatesAsync_twice
         [OF idemA idemI, where G = dirtyGit and nonInteractive = False and G' = cleanGit
            and nonInteractive' = True]
       changed
  show ?thesis by simp
qed

end
